theory Spec2Isabelle
  imports Main
begin

section \<open>Data model\<close>

text \<open>
  The bot of \<^verbatim>\<open>src/services/WhatsApp.ts\<close> is a set of event handlers over a messaging
  client, a job queue, a few repositories and an administration channel. The handlers are
  embedded as state transformers over a \<open>world\<close>; every call they make to a collaborator
  that changes something or sends something is recorded in the order it is issued, and
  what a collaborator answers is taken from an environment \<open>env\<close>, since the
  collaborators themselves are not part of the sources. A handler is run to its end: what
  other handlers do while it waits for a promise is not part of the model.
\<close>

text \<open>
  Exceptions: \<open>Failure s\<close> is an \<^verbatim>\<open>Error\<close> with the message \<open>s\<close>, \<open>TypeError\<close> the error of
  a call on \<^verbatim>\<open>undefined\<close>. \<^verbatim>\<open>toString()\<close> prints the name of the error, a colon and the
  message.
\<close>

datatype error = TypeError | Failure string

fun error_toString :: "error \<Rightarrow> string" where
  "error_toString TypeError = ''TypeError: Cannot read properties of undefined''"
| "error_toString (Failure s) = ''Error: '' @ s"

text \<open>
  Identifiers: \<^verbatim>\<open>x.id._serialized\<close> for messages and chats, \<^verbatim>\<open>x.id\<close> for database rows.
  The field \<open>id'\<close> is \<^verbatim>\<open>id\<close> and \<open>from_jid\<close> is \<^verbatim>\<open>from\<close>; a timestamp is a number of
  seconds, a natural number.
\<close>

record wid =
  serialized :: string

record 'i entity =
  id' :: 'i

record link_info =
  link :: string

record message = "wid entity" +
  from_jid :: string
  body :: string
  timestamp :: nat
  hasMedia :: bool
  links :: "link_info list"
  deviceType :: string

record chat = "wid entity" +
  isGroup :: bool
  isReadOnly :: bool
  unreadCount :: int

record contact =
  pushname :: "string option"

record ICreateUser =
  name :: string
  phone :: string
  platform :: string
  country :: string

text \<open>A database row is its generated id together with the columns that were written.\<close>

record 'a row = "string entity" +
  columns :: 'a

record MessageMedia =
  mimetype :: string
  media_data :: string

datatype DownloadStatus = UNKNOWN | PENDING | SENT | FAILED

record artifact =
  path :: string

record has_downloadId =
  downloadId :: string

record DownloadJobData = has_downloadId +
  url :: string
  message :: message

record DownloadResult = has_downloadId +
  download :: "artifact list"

record DownloadJob =
  data :: DownloadJobData
  returnvalue :: DownloadResult

subsection \<open>Calls to collaborators\<close>

datatype content =
    Text string
  | Media MessageMedia
  | Sticker MessageMedia string string

datatype props =
    NoProps
  | EventType string
  | Received bool bool string message
  | MessageProp message
  | ErrorProp error DownloadJob

datatype event =
    TrackEvent string string props
  | IdentifyUser string ICreateUser
  | PrismaUserUpsert ICreateUser
  | StickersCreate string nat string
  | Reply message content
  | DownloadsCreate string DownloadStatus string nat
  | AddJobToDownloaderQueue string DownloadJobData
  | RemoveFile string
  | UpdateStatusById string DownloadStatus
  | CreateError string string
  | TelegramSendMessage string
  | TelegramDeleteMessage nat
  | SaveFile string string
  | SendQRcode string
  | UpdateQRCode string nat

text \<open>
  What issuing a call does: it completes, it throws at the call, or it returns a promise
  that is rejected later.
\<close>

datatype outcome = Completes | Throws error | Rejects error

fun sync_throw :: "outcome \<Rightarrow> error option" where
  "sync_throw (Throws e) = Some e"
| "sync_throw _ = None"

fun rejections :: "outcome \<Rightarrow> error list" where
  "rejections (Rejects e) = [e]"
| "rejections _ = []"

fun failure :: "outcome \<Rightarrow> error option" where
  "failure Completes = None"
| "failure (Throws e) = Some e"
| "failure (Rejects e) = Some e"

text \<open>
  The answers of the collaborators. A call that returns a value is a field of its own;
  \<open>outcome\<close> says what becomes of every other call.
\<close>

record env =
  getChat :: "message \<Rightarrow> error + chat"
  getContact :: "message \<Rightarrow> error + contact"
  getFormattedNumber :: "contact \<Rightarrow> error + string"
  new_id :: "ICreateUser \<Rightarrow> string"
  downloadMedia :: "message \<Rightarrow> error + MessageMedia"
  isRatedLimited :: "string \<Rightarrow> error + bool"
  downloads_create :: "string \<Rightarrow> DownloadStatus \<Rightarrow> string \<Rightarrow> nat \<Rightarrow> error + string entity"
  getMessageById :: "string \<Rightarrow> error + message option"
  fromFilePath :: "string \<Rightarrow> error + MessageMedia"
  getChats :: "error + chat list"
  fetchMessages :: "chat \<Rightarrow> error + message list"
  sendQRcode :: "string \<Rightarrow> error + nat option"
  qrCodePath :: string
  outcome :: "event \<Rightarrow> outcome"

subsection \<open>The world the handlers act on\<close>

datatype logged = Err error | Str string

datatype listener =
    ClientAuthenticated | ClientAuthFailure | ClientDisconnected | ClientReady | ClientQr
  | ClientMessage | ClientCall
  | QueueDownloadCompleted | QueueDownloadFailed
  | TelegramBroadcast | UnreadInterval

text \<open>
  The fields of the bot (\<open>isAuthenticated\<close>, \<open>unreadChats\<close>), the id of the QR prompt
  kept by the administration channel (\<open>None\<close> is \<^verbatim>\<open>null\<close>), the registry of listeners,
  the user table keyed by phone, and what an observer sees of a run: the calls issued to
  collaborators, the rejections nobody handled, the console, and the values assigned to
  \<open>unreadChats\<close>.
\<close>

record world =
  isAuthenticated :: bool
  unreadChats :: int
  unreadChats_writes :: "int list"
  QrCodeMessageId :: "nat option"
  listeners :: "(listener \<times> bool) list"
  users :: "string \<rightharpoonup> ICreateUser row"
  calls :: "event list"
  unhandled :: "error list"
  console :: "(string \<times> logged) list"

section \<open>Control flow: exceptions, awaited and floating calls\<close>

type_synonym 'a prog = "world \<Rightarrow> (error + 'a) \<times> world"

definition ret :: "'a \<Rightarrow> 'a prog" where
  "ret x = (\<lambda>w. (Inr x, w))"

definition raise :: "error \<Rightarrow> 'a prog" where
  "raise e = (\<lambda>w. (Inl e, w))"

definition andThen :: "'a prog \<Rightarrow> ('a \<Rightarrow> 'b prog) \<Rightarrow> 'b prog" where
  "andThen m f = (\<lambda>w. case m w of (Inl e, w') \<Rightarrow> (Inl e, w') | (Inr x, w') \<Rightarrow> f x w')"

definition try_catch :: "'a prog \<Rightarrow> (error \<Rightarrow> 'a prog) \<Rightarrow> 'a prog" where
  "try_catch m h = (\<lambda>w. case m w of (Inl e, w') \<Rightarrow> h e w' | (Inr x, w') \<Rightarrow> (Inr x, w'))"

text \<open>\<^verbatim>\<open>await p\<close> on a promise whose result the environment gives.\<close>

definition await :: "error + 'a \<Rightarrow> 'a prog" where
  "await r = (case r of Inl e \<Rightarrow> raise e | Inr x \<Rightarrow> ret x)"

definition issue :: "event \<Rightarrow> unit prog" where
  "issue ev = (\<lambda>w. (Inr (), w\<lparr>calls := calls w @ [ev]\<rparr>))"

text \<open>
  \<^verbatim>\<open>f(args);\<close> with the returned promise dropped: an exception thrown by the call itself
  reaches the enclosing \<^verbatim>\<open>try\<close>, a later rejection reaches nobody and is recorded in
  \<open>unhandled\<close>.
\<close>

definition fire :: "env \<Rightarrow> event \<Rightarrow> unit prog" where
  "fire env ev = (\<lambda>w.
     let w' = w\<lparr>calls := calls w @ [ev],
                unhandled := unhandled w @ rejections (outcome env ev)\<rparr>
     in case sync_throw (outcome env ev) of
          Some e \<Rightarrow> (Inl e, w')
        | None \<Rightarrow> (Inr (), w'))"

text \<open>\<^verbatim>\<open>await f(args);\<close> for a call without a result: both kinds of failure are thrown here.\<close>

definition await_call :: "env \<Rightarrow> event \<Rightarrow> unit prog" where
  "await_call env ev = (\<lambda>w.
     let w' = w\<lparr>calls := calls w @ [ev]\<rparr>
     in case failure (outcome env ev) of
          Some e \<Rightarrow> (Inl e, w')
        | None \<Rightarrow> (Inr (), w'))"

text \<open>Assignments to the fields of the bot, and reads of them.\<close>

definition modify :: "(world \<Rightarrow> world) \<Rightarrow> unit prog" where
  "modify upd = (\<lambda>w. (Inr (), upd w))"

definition reading :: "(world \<Rightarrow> 'b) \<Rightarrow> ('b \<Rightarrow> 'a prog) \<Rightarrow> 'a prog" where
  "reading field f = (\<lambda>w. f (field w) w)"

definition console_log :: "string \<Rightarrow> logged \<Rightarrow> unit prog" where
  "console_log s x = (\<lambda>w. (Inr (), w\<lparr>console := console w @ [(s, x)]\<rparr>))"

section \<open>Strings\<close>

text \<open>\<^verbatim>\<open>s.split(sep)\<close> for a separator of one character.\<close>

fun split :: "char \<Rightarrow> string \<Rightarrow> string list" where
  "split sep [] = [[]]"
| "split sep (c # cs) =
     (if c = sep then [] # split sep cs
      else (c # hd (split sep cs)) # tl (split sep cs))"

text \<open>\<^verbatim>\<open>a || b\<close> on strings, where \<open>None\<close> is \<^verbatim>\<open>undefined\<close>.\<close>

fun js_or :: "string option \<Rightarrow> string \<Rightarrow> string" where
  "js_or None b = b"
| "js_or (Some []) b = b"
| "js_or (Some a) b = a"

text \<open>The decimal numeral a template literal prints for a non-negative integer.\<close>

definition digit_char :: "nat \<Rightarrow> char" where
  "digit_char d = ''0123456789'' ! d"

fun string_of_nat :: "nat \<Rightarrow> string" where
  "string_of_nat n =
     (if n < 10 then [digit_char n]
      else string_of_nat (n div 10) @ [digit_char (n mod 10)])"

section \<open>The user repository (\<^verbatim>\<open>src/services/Database/Users.ts\<close>)\<close>

text \<open>
  \<^verbatim>\<open>prisma.user.upsert({ where: { phone }, update: userData, create: userData })\<close>: the
  row with that phone gets the columns of \<open>userData\<close> and keeps its id; without such a row
  one is created under a new id.
\<close>

definition upsert_row :: "env \<Rightarrow> (string \<rightharpoonup> ICreateUser row) \<Rightarrow> ICreateUser \<Rightarrow> ICreateUser row" where
  "upsert_row env table userData =
     (case table (phone userData) of
        Some u \<Rightarrow> u\<lparr>columns := userData\<rparr>
      | None \<Rightarrow> \<lparr>id' = new_id env userData, columns = userData\<rparr>)"

definition createOrUpdateUser :: "env \<Rightarrow> ICreateUser \<Rightarrow> (ICreateUser row) prog" where
  "createOrUpdateUser env userData =
     andThen (await_call env (PrismaUserUpsert userData)) (\<lambda>_. \<lambda>w.
       let r = upsert_row env (users w) userData
       in (Inr r, w\<lparr>users := (users w)(phone userData \<mapsto> r)\<rparr>))"

section \<open>The message handler (\<^verbatim>\<open>setupMessageHandler\<close>)\<close>

definition rate_limit_notice :: string where
  "rate_limit_notice =
     ''To save our resources, Please wait a moment before sending another request. R409''"

definition sticker_reply :: "MessageMedia \<Rightarrow> content" where
  "sticker_reply media = Sticker media ''wwz.gitnasr.com'' ''WhatsApp Wizard v3.0''"

definition sticker_path :: "env \<Rightarrow> message \<Rightarrow> ICreateUser row \<Rightarrow> unit prog" where
  "sticker_path env msg user =
     (if hasMedia msg then
        andThen (await (downloadMedia env msg)) (\<lambda>media.
          if mimetype media = ''image/jpeg'' \<or> mimetype media = ''image/png'' then
            andThen (fire env (StickersCreate (id' user) (timestamp msg) (body msg))) (\<lambda>_.
            andThen (fire env (Reply msg
                       (sticker_reply \<lparr>mimetype = mimetype media, media_data = media_data media\<rparr>))) (\<lambda>_.
            fire env (TrackEvent ''sticker_created'' (id' user) NoProps)))
          else ret ())
      else ret ())"

text \<open>
  Only the first link is handled. \<^verbatim>\<open>if (urls)\<close> tests an array, which is always truthy,
  and \<^verbatim>\<open>urls[0]\<close> is read only when there is a link.
\<close>

definition link_path :: "env \<Rightarrow> message \<Rightarrow> string \<Rightarrow> ICreateUser row \<Rightarrow> unit prog" where
  "link_path env msg userNumber user =
     (if 0 < length (links msg) then
        andThen (await (isRatedLimited env userNumber)) (\<lambda>isRateLimited.
          if isRateLimited then
            andThen (fire env (TrackEvent ''rate_limited'' (id' user) NoProps)) (\<lambda>_.
            fire env (Reply msg (Text rate_limit_notice)))
          else
            let urls = map link (links msg);
                url' = urls ! 0
            in
            andThen (issue (DownloadsCreate url' UNKNOWN (id' user) (timestamp msg))) (\<lambda>_.
            andThen (await (downloads_create env url' UNKNOWN (id' user) (timestamp msg)))
              (\<lambda>DownloadInDatabase.
            andThen (fire env (TrackEvent ''download_requested'' (id' user) (MessageProp msg))) (\<lambda>_.
            fire env (AddJobToDownloaderQueue
                        (string_of_nat (timestamp msg) @ ''-'' @ userNumber)
                        \<lparr>downloadId = id' DownloadInDatabase, url = urls ! 0,
                         message = msg\<rparr>)))))
      else ret ())"

text \<open>
  The payload of the upsert; \<^verbatim>\<open>identifyUser\<close> gets the same payload (its \<^verbatim>\<open>firstSeen\<close>
  date is left out).
\<close>

definition userPayload :: "message \<Rightarrow> contact \<Rightarrow> string \<Rightarrow> ICreateUser" where
  "userPayload msg contactInfo userNumber =
     (let countryCode = split (CHR '' '') userNumber ! 0
      in \<lparr>name = js_or (pushname contactInfo) userNumber,
          phone = userNumber,
          platform = deviceType msg,
          country = countryCode\<rparr>)"

definition message_body :: "env \<Rightarrow> message \<Rightarrow> unit prog" where
  "message_body env msg =
     andThen (await (getChat env msg)) (\<lambda>chatInfo.
       if isGroup chatInfo \<or> isReadOnly chatInfo then ret ()
       else
         andThen (await (getContact env msg)) (\<lambda>contactInfo.
         andThen (await (getFormattedNumber env contactInfo)) (\<lambda>userNumber.
         andThen (createOrUpdateUser env (userPayload msg contactInfo userNumber)) (\<lambda>user.
         andThen (fire env (IdentifyUser (id' user) (userPayload msg contactInfo userNumber))) (\<lambda>_.
         andThen (fire env (TrackEvent ''message_received'' (id' user)
                    (Received (hasMedia msg) (0 < length (links msg)) (deviceType msg) msg))) (\<lambda>_.
         andThen (sticker_path env msg user) (\<lambda>_.
         link_path env msg userNumber user)))))))"

definition on_message :: "env \<Rightarrow> message \<Rightarrow> unit prog" where
  "on_message env msg =
     try_catch (message_body env msg) (\<lambda>e. console_log ''Error in message handler'' (Err e))"

section \<open>The queue handlers (\<^verbatim>\<open>onQueueMessage\<close>)\<close>

text \<open>
  \<^verbatim>\<open>client.getMessageById\<close> gives the message, or \<^verbatim>\<open>undefined\<close> when the platform no
  longer has it; calling \<^verbatim>\<open>reply\<close> on \<^verbatim>\<open>undefined\<close> throws a \<^verbatim>\<open>TypeError\<close>.
\<close>

definition reply_on :: "env \<Rightarrow> message option \<Rightarrow> content \<Rightarrow> unit prog" where
  "reply_on env userMessageOnWhatsApp c =
     (case userMessageOnWhatsApp of
        None \<Rightarrow> raise TypeError
      | Some m \<Rightarrow> fire env (Reply m c))"

fun deliver :: "env \<Rightarrow> DownloadJob \<Rightarrow> artifact list \<Rightarrow> unit prog" where
  "deliver env job [] = ret ()"
| "deliver env job (element # rest) =
     andThen (await (fromFilePath env (path element))) (\<lambda>media.
     andThen (await (getMessageById env (serialized (id' (message (data job))))))
       (\<lambda>userMessageOnWhatsApp.
     andThen (reply_on env userMessageOnWhatsApp (Media media)) (\<lambda>_.
     andThen (await_call env (RemoveFile (path element))) (\<lambda>_.
     andThen (fire env (TrackEvent ''download_response'' (from_jid (message (data job)))
                (MessageProp (message (data job))))) (\<lambda>_.
     deliver env job rest)))))"

definition on_completed :: "env \<Rightarrow> DownloadJob \<Rightarrow> unit prog" where
  "on_completed env job =
     try_catch
       (andThen (deliver env job (download (returnvalue job))) (\<lambda>_.
        await_call env (UpdateStatusById (downloadId (returnvalue job)) SENT)))
       (\<lambda>e.
        andThen (console_log ''Error in onQueueMessage:'' (Err e)) (\<lambda>_.
        fire env (TrackEvent ''error_onQueueMessage'' [] (ErrorProp e job))))"

text \<open>The apology, with its apostrophe, its two emoji (as UTF-8 bytes) and its line breaks.\<close>

definition apology :: string where
  "apology =
     ''Believe me, I tried my best to download this file, but I couldn'' @ [CHR 0x27] @ ''t. ''
     @ [CHR 0xF0, CHR 0x9F, CHR 0xAB, CHR 0xA0, CHR 0xF0, CHR 0x9F, CHR 0x98, CHR 0x94]
     @ '' '' @ [CHR 0x0A, CHR 0x0A] @ ''Please try again later''"

definition on_failed :: "env \<Rightarrow> DownloadJob \<Rightarrow> error \<Rightarrow> unit prog" where
  "on_failed env job err =
     try_catch
       (andThen (await (getMessageById env (serialized (id' (message (data job))))))
          (\<lambda>userMessageOnWhatsApp.
        andThen (reply_on env userMessageOnWhatsApp (Text apology)) (\<lambda>_.
        fire env (CreateError (error_toString err) (downloadId (data job))))))
       (\<lambda>errorFromFunction. ret ())"

section \<open>The unread reconciliation pass (\<^verbatim>\<open>getUnreadChats\<close>)\<close>

text \<open>\<^verbatim>\<open>xs.slice(0, n)\<close>; a negative \<open>n\<close> counts from the end of the array.\<close>

definition slice0 :: "int \<Rightarrow> 'a list \<Rightarrow> 'a list" where
  "slice0 n xs = (if n < 0 then take (length xs - nat (- n)) xs else take (nat n) xs)"

type_synonym unread_index = "string \<rightharpoonup> message list"

fun unread_loop :: "env \<Rightarrow> chat list \<Rightarrow> unread_index \<times> int \<Rightarrow> (unread_index \<times> int) prog" where
  "unread_loop env [] acc = ret acc"
| "unread_loop env (c # chats) (HashMap, count) =
     (if unreadCount c > 0 then
        andThen (await (fetchMessages env c)) (\<lambda>fetched.
          let messages = slice0 (unreadCount c) (rev fetched)
          in unread_loop env chats
               (HashMap(serialized (id' c) \<mapsto> messages), count + unreadCount c))
      else unread_loop env chats (HashMap, count))"

text \<open>
  \<^verbatim>\<open>if (count !== this.unreadChats) { this.unreadChats = count; }\<close>; every assignment
  to the counter is also noted in \<open>unreadChats_writes\<close>.
\<close>

definition set_unreadChats :: "int \<Rightarrow> unit prog" where
  "set_unreadChats count =
     reading unreadChats (\<lambda>previous.
       if count \<noteq> previous
       then modify (\<lambda>w. w\<lparr>unreadChats := count,
                            unreadChats_writes := unreadChats_writes w @ [count]\<rparr>)
       else ret ())"

definition getUnreadChats :: "env \<Rightarrow> (unread_index option) prog" where
  "getUnreadChats env =
     try_catch
       (andThen (await (getChats env)) (\<lambda>chats.
        andThen (unread_loop env chats (Map.empty, 0)) (\<lambda>(HashMap, count).
        andThen (set_unreadChats count) (\<lambda>_.
        ret (Some HashMap)))))
       (\<lambda>e.
        andThen (console_log ''Error checking unread messages:'' (Err e)) (\<lambda>_.
        ret None))"

section \<open>The lifecycle handlers (\<^verbatim>\<open>setupWhatsAppEventHandlers\<close>)\<close>

text \<open>
  \<open>listeners\<close> is the registry of callbacks: the listeners of the client, of the queue
  service and of the administration channel, and the interval timer. The flag of an entry
  says whether it was registered with \<^verbatim>\<open>once\<close>.
\<close>

definition register :: "listener \<Rightarrow> bool \<Rightarrow> unit prog" where
  "register l once = modify (\<lambda>w. w\<lparr>listeners := listeners w @ [(l, once)]\<rparr>)"

definition setupWhatsAppEventHandlers :: "unit prog" where
  "setupWhatsAppEventHandlers =
     andThen (register ClientAuthenticated False) (\<lambda>_.
     andThen (register ClientAuthFailure False) (\<lambda>_.
     andThen (register ClientDisconnected False) (\<lambda>_.
     andThen (register ClientReady True) (\<lambda>_.
     register ClientQr False))))"

definition on_authenticated :: "env \<Rightarrow> unit prog" where
  "on_authenticated env =
     andThen (modify (\<lambda>w. w\<lparr>isAuthenticated := True\<rparr>)) (\<lambda>_.
     andThen (fire env (TrackEvent ''system_event'' ''system'' (EventType ''whatsapp_authenticated''))) (\<lambda>_.
     fire env (TelegramSendMessage ''WhatsApp is authenticated and ready to go!'')))"

definition on_auth_failure :: "env \<Rightarrow> unit prog" where
  "on_auth_failure env =
     andThen (modify (\<lambda>w. w\<lparr>isAuthenticated := False\<rparr>)) (\<lambda>_.
     andThen (fire env (TrackEvent ''system_event'' ''system''
                (EventType ''whatsapp_authenticated_failure''))) (\<lambda>_.
     fire env (TelegramSendMessage ''WhatsApp authentication failed. Please re-scan the QR code.'')))"

definition on_disconnected :: "env \<Rightarrow> string \<Rightarrow> unit prog" where
  "on_disconnected env reason =
     andThen (console_log ''Client was disconnected'' (Str reason)) (\<lambda>_.
     andThen (modify (\<lambda>w. w\<lparr>isAuthenticated := False\<rparr>)) (\<lambda>_.
     andThen (fire env (TrackEvent ''system_event'' ''system'' (EventType ''whatsapp_disconnected''))) (\<lambda>_.
     fire env (TelegramSendMessage ''WhatsApp client was disconnected. Please re-scan the QR code.''))))"

text \<open>
  \<^verbatim>\<open>clearQRCodes\<close> is asynchronous and called without \<^verbatim>\<open>await\<close>: the removal of the
  file is a floating call of the handler.
\<close>

definition clearQRCodes :: "env \<Rightarrow> unit prog" where
  "clearQRCodes env = fire env (RemoveFile (qrCodePath env))"

definition setupMessageHandler :: "unit prog" where
  "setupMessageHandler = register ClientMessage False"

definition onQueueMessage :: "unit prog" where
  "onQueueMessage =
     andThen (register QueueDownloadCompleted False) (\<lambda>_.
     register QueueDownloadFailed False)"

definition onTelegramMessage :: "unit prog" where
  "onTelegramMessage = register TelegramBroadcast False"

definition registerBlockOnCalls :: "unit prog" where
  "registerBlockOnCalls = register ClientCall False"

text \<open>
  \<^verbatim>\<open>getUnreadChats\<close> is called without \<^verbatim>\<open>await\<close>; it catches its own exceptions, so
  the promise it returns is never rejected. The timer calls it again while the client is
  authenticated.
\<close>

definition on_interval :: "env \<Rightarrow> unit prog" where
  "on_interval env =
     reading isAuthenticated (\<lambda>authenticated.
       if authenticated then andThen (getUnreadChats env) (\<lambda>_. ret ())
       else ret ())"

definition RegisterMessageCheck :: "env \<Rightarrow> unit prog" where
  "RegisterMessageCheck env =
     andThen onQueueMessage (\<lambda>_.
     andThen onTelegramMessage (\<lambda>_.
     andThen (getUnreadChats env) (\<lambda>_.
     register UnreadInterval False)))"

text \<open>
  The QR handler saves the picture of the code and shows it on the administration channel:
  it updates the prompt when there is one and sends a new one otherwise, keeping what the
  channel returns as the id of the prompt. The handlers test the id for truthiness: \<^verbatim>\<open>null\<close>
  (\<open>None\<close>) and \<open>0\<close> count as no prompt.
\<close>

definition on_qr :: "env \<Rightarrow> string \<Rightarrow> unit prog" where
  "on_qr env qr =
     andThen (await_call env (SaveFile (qrCodePath env) qr)) (\<lambda>_.
     reading QrCodeMessageId (\<lambda>prompt.
       case prompt of
         None \<Rightarrow>
           andThen (issue (SendQRcode (qrCodePath env))) (\<lambda>_.
           andThen (await (sendQRcode env (qrCodePath env))) (\<lambda>sent.
           modify (\<lambda>w. w\<lparr>QrCodeMessageId := sent\<rparr>)))
       | Some shown \<Rightarrow>
           if shown = 0 then
             andThen (issue (SendQRcode (qrCodePath env))) (\<lambda>_.
             andThen (await (sendQRcode env (qrCodePath env))) (\<lambda>sent.
             modify (\<lambda>w. w\<lparr>QrCodeMessageId := sent\<rparr>)))
           else await_call env (UpdateQRCode (qrCodePath env) shown)))"

definition on_ready :: "env \<Rightarrow> unit prog" where
  "on_ready env =
     andThen (modify (\<lambda>w. w\<lparr>isAuthenticated := True\<rparr>)) (\<lambda>_.
     andThen (fire env (TelegramSendMessage ''WhatsApp client is ready!'')) (\<lambda>_.
     andThen (fire env (TrackEvent ''system_event'' ''system'' (EventType ''whatsapp_ready''))) (\<lambda>_.
     andThen (reading QrCodeMessageId (\<lambda>prompt.
        case prompt of
          None \<Rightarrow> ret ()
        | Some qr \<Rightarrow>
            if qr = 0 then ret ()
            else
              andThen (fire env (TelegramDeleteMessage qr)) (\<lambda>_.
              andThen (modify (\<lambda>w. w\<lparr>QrCodeMessageId := None\<rparr>)) (\<lambda>_.
              andThen (clearQRCodes env) (\<lambda>_.
              fire env (TrackEvent ''system_event'' ''system''
                          (EventType ''qrcode_authentication_completed'')))))))
       (\<lambda>_.
     andThen setupMessageHandler (\<lambda>_.
     andThen (RegisterMessageCheck env) (\<lambda>_.
     registerBlockOnCalls))))))"

text \<open>
  Emitting a signal calls its listeners in the order of their registration; a listener
  registered with \<^verbatim>\<open>once\<close> is removed from the registry and then called. The listeners
  for messages, calls, QR codes, queue jobs and broadcasts take a payload and are run
  directly; the reason of a disconnection is only printed and is left empty here.
\<close>

fun handler :: "env \<Rightarrow> listener \<Rightarrow> unit prog" where
  "handler env ClientAuthenticated = on_authenticated env"
| "handler env ClientAuthFailure = on_auth_failure env"
| "handler env ClientDisconnected = on_disconnected env []"
| "handler env ClientReady = on_ready env"
| "handler env UnreadInterval = on_interval env"
| "handler env _ = ret ()"

definition unregister :: "listener \<times> bool \<Rightarrow> unit prog" where
  "unregister l = modify (\<lambda>w. w\<lparr>listeners := remove1 l (listeners w)\<rparr>)"

fun run_listeners :: "env \<Rightarrow> (listener \<times> bool) list \<Rightarrow> unit prog" where
  "run_listeners env [] = ret ()"
| "run_listeners env ((l, once) # ls) =
     andThen (if once then unregister (l, once) else ret ()) (\<lambda>_.
     andThen (handler env l) (\<lambda>_.
     run_listeners env ls))"

definition emit :: "env \<Rightarrow> listener \<Rightarrow> unit prog" where
  "emit env l = (\<lambda>w. run_listeners env (filter (\<lambda>r. fst r = l) (listeners w)) w)"

section \<open>Observing a handler\<close>

text \<open>
  The statements below speak about the calls a handler issues (\<open>issued\<close>), about what it
  leaves unchanged and about the kind of calls it can issue at all.
\<close>

text \<open>The calls a handler issues when it runs in \<open>w\<close>, in order.\<close>

definition issued :: "'a prog \<Rightarrow> world \<Rightarrow> event list" where
  "issued m w = drop (length (calls w)) (calls (snd (m w)))"

text \<open>\<open>keeps f m\<close>: running \<open>m\<close> never changes the part \<open>f\<close> of the world.\<close>

definition keeps :: "(world \<Rightarrow> 'b) \<Rightarrow> 'a prog \<Rightarrow> bool" where
  "keeps f m = (\<forall>w. f (snd (m w)) = f w)"

definition is_DownloadsCreate :: "event \<Rightarrow> bool" where
  "is_DownloadsCreate ev = (case ev of DownloadsCreate _ _ _ _ \<Rightarrow> True | _ \<Rightarrow> False)"

definition is_AddJob :: "event \<Rightarrow> bool" where
  "is_AddJob ev = (case ev of AddJobToDownloaderQueue _ _ \<Rightarrow> True | _ \<Rightarrow> False)"

text \<open>\<open>emits m w r evs\<close>: run in \<open>w\<close>, the handler \<open>m\<close> ends with \<open>r\<close> and has issued exactly \<open>evs\<close>.\<close>

definition emits :: "'a prog \<Rightarrow> world \<Rightarrow> error + 'a \<Rightarrow> event list \<Rightarrow> bool" where
  "emits m w r evs \<longleftrightarrow> fst (m w) = r \<and> calls (snd (m w)) = calls w @ evs"



text \<open>The calls of one round of the delivery loop, for the artifact \<open>a\<close>.\<close>

definition delivery :: "message \<Rightarrow> DownloadJob \<Rightarrow> (artifact \<Rightarrow> MessageMedia) \<Rightarrow> artifact \<Rightarrow> event list" where
  "delivery original job loaded a =
     [Reply original (Media (loaded a)),
      RemoveFile (path a),
      TrackEvent ''download_response'' (from_jid (message (data job))) (MessageProp (message (data job)))]"

definition is_Reply :: "event \<Rightarrow> bool" where
  "is_Reply ev = (case ev of Reply _ _ \<Rightarrow> True | _ \<Rightarrow> False)"

definition is_RemoveFile :: "event \<Rightarrow> bool" where
  "is_RemoveFile ev = (case ev of RemoveFile _ \<Rightarrow> True | _ \<Rightarrow> False)"

definition is_UpdateStatusById :: "event \<Rightarrow> bool" where
  "is_UpdateStatusById ev = (case ev of UpdateStatusById _ _ \<Rightarrow> True | _ \<Rightarrow> False)"

text \<open>The key of a chat in the unread index, the chats with unread messages, and their total.\<close>

definition chat_key :: "chat \<Rightarrow> string" where
  "chat_key c = serialized (id' c)"

definition unread :: "chat list \<Rightarrow> chat list" where
  "unread chats = filter (\<lambda>c. 0 < unreadCount c) chats"

definition total_unread :: "chat list \<Rightarrow> int" where
  "total_unread chats = sum_list (map unreadCount (unread chats))"

text \<open>The entry of the index that a pass returns, if it returns one.\<close>

definition unread_entry :: "env \<Rightarrow> world \<Rightarrow> string \<Rightarrow> message list option" where
  "unread_entry env w k =
     (case fst (getUnreadChats env w) of Inr (Some HashMap) \<Rightarrow> HashMap k | _ \<Rightarrow> None)"

text \<open>The listeners registered for \<^verbatim>\<open>ready\<close>.\<close>

definition ready_listeners :: "world \<Rightarrow> (listener \<times> bool) list" where
  "ready_listeners w = filter (\<lambda>r. fst r = ClientReady) (listeners w)"

definition is_TelegramDeleteMessage :: "event \<Rightarrow> bool" where
  "is_TelegramDeleteMessage ev = (case ev of TelegramDeleteMessage _ \<Rightarrow> True | _ \<Rightarrow> False)"

text \<open>What the ready handler registers, in order.\<close>

definition ready_registrations :: "(listener \<times> bool) list" where
  "ready_registrations =
     [(ClientMessage, False), (QueueDownloadCompleted, False), (QueueDownloadFailed, False),
      (TelegramBroadcast, False), (UnreadInterval, False), (ClientCall, False)]"

text \<open>The last three statements of the ready handler.\<close>

definition registration_part :: "env \<Rightarrow> unit prog" where
  "registration_part env =
     andThen setupMessageHandler (\<lambda>_.
     andThen (RegisterMessageCheck env) (\<lambda>_.
     registerBlockOnCalls))"

text \<open>The calls of the ready handler, given the QR prompt it finds.\<close>

definition ready_calls :: "env \<Rightarrow> nat option \<Rightarrow> event list" where
  "ready_calls env prompt =
     [TelegramSendMessage ''WhatsApp client is ready!'',
      TrackEvent ''system_event'' ''system'' (EventType ''whatsapp_ready'')]
     @ (case prompt of
          None \<Rightarrow> []
        | Some qr \<Rightarrow>
            if qr = 0 then []
            else [TelegramDeleteMessage qr, RemoveFile (qrCodePath env),
                  TrackEvent ''system_event'' ''system''
                    (EventType ''qrcode_authentication_completed'')])"

text \<open>The calls of the sticker path for a message whose media, if any, has been downloaded.\<close>

definition sticker_calls :: "message \<Rightarrow> string \<Rightarrow> MessageMedia \<Rightarrow> event list" where
  "sticker_calls msg uid media =
     (if hasMedia msg \<and> (mimetype media = ''image/jpeg'' \<or> mimetype media = ''image/png'')
      then [StickersCreate uid (timestamp msg) (body msg),
            Reply msg (sticker_reply media),
            TrackEvent ''sticker_created'' uid NoProps]
      else [])"

text \<open>
  The calls of the message handler whose promise is awaited. A failure of an awaited call,
  and an exception that a call throws as it is issued, reach the \<^verbatim>\<open>try\<close> block of the
  handler (\<open>raised_by\<close>; the creation of the download record fails through its answer). The
  rejections of the other calls reach nobody (\<open>escapes\<close>).
\<close>

definition awaited_call :: "event \<Rightarrow> bool" where
  "awaited_call ev =
     (case ev of PrismaUserUpsert _ \<Rightarrow> True | DownloadsCreate _ _ _ _ \<Rightarrow> True | _ \<Rightarrow> False)"

definition raised_by :: "env \<Rightarrow> event \<Rightarrow> error option" where
  "raised_by env ev =
     (case ev of
        PrismaUserUpsert _ \<Rightarrow> failure (outcome env ev)
      | DownloadsCreate _ _ _ _ \<Rightarrow> None
      | _ \<Rightarrow> sync_throw (outcome env ev))"

definition escapes :: "env \<Rightarrow> event list \<Rightarrow> error list" where
  "escapes env evs =
     concat (map (\<lambda>ev. rejections (outcome env ev)) (filter (\<lambda>ev. \<not> awaited_call ev) evs))"

text \<open>
  \<open>tracks env m\<close>: the rejections that \<open>m\<close> leaves unhandled are those of the floating calls
  it issues, and an issued call that raises makes \<open>m\<close> raise the same exception.
\<close>

definition tracks :: "env \<Rightarrow> 'a prog \<Rightarrow> bool" where
  "tracks env m \<longleftrightarrow>
     (\<forall>w. \<exists>evs. calls (snd (m w)) = calls w @ evs
        \<and> unhandled (snd (m w)) = unhandled w @ escapes env evs
        \<and> (\<forall>ev\<in>set evs. \<forall>e. raised_by env ev = Some e \<longrightarrow> fst (m w) = Inl e))"

text \<open>\<open>succeeds m\<close>: \<open>m\<close> never raises. \<open>answers env\<close>: every collaborator answers and no call raises.\<close>

definition succeeds :: "'a prog \<Rightarrow> bool" where
  "succeeds m \<longleftrightarrow> (\<forall>w. \<exists>x. fst (m w) = Inr x)"

definition answers :: "env \<Rightarrow> bool" where
  "answers env \<longleftrightarrow>
     (\<forall>m. \<exists>c. getChat env m = Inr c)
     \<and> (\<forall>m. \<exists>c. getContact env m = Inr c)
     \<and> (\<forall>c. \<exists>n. getFormattedNumber env c = Inr n)
     \<and> (\<forall>m. \<exists>x. downloadMedia env m = Inr x)
     \<and> (\<forall>n. \<exists>b. isRatedLimited env n = Inr b)
     \<and> (\<forall>u s owner t. \<exists>d. downloads_create env u s owner t = Inr d)
     \<and> (\<forall>ev. raised_by env ev = None)"

text \<open>The message handler prints the exception \<open>e\<close>, once, and nothing else.\<close>

definition logged_once :: "env \<Rightarrow> message \<Rightarrow> world \<Rightarrow> error \<Rightarrow> bool" where
  "logged_once env msg w e \<longleftrightarrow>
     console (snd (on_message env msg w)) = console w @ [(''Error in message handler'', Err e)]"

text \<open>The rejections of the promises of a list of calls.\<close>

definition rejected :: "env \<Rightarrow> event list \<Rightarrow> error list" where
  "rejected env evs = concat (map (\<lambda>ev. rejections (outcome env ev)) evs)"

section \<open>A concrete conversation\<close>

text \<open>
  Values on which the theorems below are instantiated: a private chat, a sender whose
  formatted number is \<open>+20 100 200 3000\<close>, collaborators that answer every call, and
  variations of them.
\<close>

definition fresh_world :: world where
  "fresh_world =
     \<lparr>isAuthenticated = False, unreadChats = 0, unreadChats_writes = [],
      QrCodeMessageId = None, listeners = [], users = Map.empty,
      calls = [], unhandled = [], console = []\<rparr>"

definition private_chat :: chat where
  "private_chat =
     \<lparr>id' = \<lparr>serialized = ''201002003000@c.us''\<rparr>,
      isGroup = False, isReadOnly = False, unreadCount = 0\<rparr>"

definition sender :: contact where
  "sender = \<lparr>pushname = Some ''Mona''\<rparr>"

definition sender_number :: string where
  "sender_number = ''+20 100 200 3000''"

definition picture :: MessageMedia where
  "picture = \<lparr>mimetype = ''image/png'', media_data = ''iVBORw0KGgo=''\<rparr>"


definition link_message :: message where
  "link_message =
     \<lparr>id' = \<lparr>serialized = ''false_201002003000@c.us_3EB0A1''\<rparr>,
      from_jid = ''201002003000@c.us'',
      body = ''https://example.com/v/1'',
      timestamp = 42,
      hasMedia = False,
      links = [\<lparr>link = ''https://example.com/v/1''\<rparr>],
      deviceType = ''android''\<rparr>"

definition picture_message :: message where
  "picture_message =
     \<lparr>id' = \<lparr>serialized = ''false_201002003000@c.us_3EB0A2''\<rparr>,
      from_jid = ''201002003000@c.us'',
      body = ''holiday'',
      timestamp = 43,
      hasMedia = True,
      links = [],
      deviceType = ''android''\<rparr>"

definition sender_row :: "ICreateUser row" where
  "sender_row =
     \<lparr>id' = ''user-1'',
      columns = \<lparr>name = ''Mona'', phone = sender_number, platform = ''android'',
                 country = ''+20''\<rparr>\<rparr>"

definition calm_env :: env where
  "calm_env =
     \<lparr>getChat = (\<lambda>_. Inr private_chat),
      getContact = (\<lambda>_. Inr sender),
      getFormattedNumber = (\<lambda>_. Inr sender_number),
      new_id = (\<lambda>_. ''user-1''),
      downloadMedia = (\<lambda>_. Inr picture),
      isRatedLimited = (\<lambda>_. Inr False),
      downloads_create = (\<lambda>_ _ _ _. Inr \<lparr>id' = ''download-1''\<rparr>),
      getMessageById = (\<lambda>_. Inr (Some link_message)),
      fromFilePath = (\<lambda>_. Inr picture),
      getChats = Inr [],
      fetchMessages = (\<lambda>_. Inr []),
      sendQRcode = (\<lambda>_. Inr (Some 9)),
      qrCodePath = ''public/qr.png'',
      outcome = (\<lambda>_. Completes)\<rparr>"


definition limiting_env :: env where
  "limiting_env = calm_env\<lparr>isRatedLimited := (\<lambda>_. Inr True)\<rparr>"

definition dropping_env :: env where
  "dropping_env =
     calm_env\<lparr>outcome := (\<lambda>ev. case ev of
        Reply _ (Sticker _ _ _) \<Rightarrow> Rejects (Failure ''Evaluation failed'')
      | _ \<Rightarrow> Completes)\<rparr>"

definition failing_env :: env where
  "failing_env = calm_env\<lparr>isRatedLimited := (\<lambda>_. Inl (Failure ''limiter unreachable''))\<rparr>"

definition failed_job :: DownloadJob where
  "failed_job =
     \<lparr>data = \<lparr>downloadId = ''download-1'', url = ''https://example.com/v/1'', message = link_message\<rparr>,
      returnvalue = \<lparr>downloadId = ''download-1'', download = []\<rparr>\<rparr>"

definition forgetful_env :: env where
  "forgetful_env = calm_env\<lparr>getMessageById := (\<lambda>_. Inr None)\<rparr>"

definition throwing_reply_env :: env where
  "throwing_reply_env =
     calm_env\<lparr>outcome := (\<lambda>ev. case ev of
        Reply _ _ \<Rightarrow> Throws (Failure ''Session closed'')
      | _ \<Rightarrow> Completes)\<rparr>"

definition rejecting_reply_env :: env where
  "rejecting_reply_env =
     calm_env\<lparr>outcome := (\<lambda>ev. case ev of
        Reply _ _ \<Rightarrow> Rejects (Failure ''Session closed'')
      | _ \<Rightarrow> Completes)\<rparr>"

definition completed_job :: DownloadJob where
  "completed_job =
     \<lparr>data = \<lparr>downloadId = ''download-1'', url = ''https://example.com/v/1'', message = link_message\<rparr>,
      returnvalue = \<lparr>downloadId = ''download-1'',
                     download = [\<lparr>path = ''downloads/1.mp4''\<rparr>, \<lparr>path = ''downloads/2.jpg''\<rparr>]\<rparr>\<rparr>"

definition text_message :: "nat \<Rightarrow> message" where
  "text_message t =
     \<lparr>id' = \<lparr>serialized = ''false_201002003000@c.us_'' @ string_of_nat t\<rparr>,
      from_jid = ''201002003000@c.us'',
      body = ''hello'',
      timestamp = t,
      hasMedia = False,
      links = [],
      deviceType = ''android''\<rparr>"

definition chat_with :: "string \<Rightarrow> int \<Rightarrow> chat" where
  "chat_with k n = \<lparr>id' = \<lparr>serialized = k\<rparr>, isGroup = False, isReadOnly = False, unreadCount = n\<rparr>"

definition inbox :: "chat list" where
  "inbox = [chat_with ''a@c.us'' 0, chat_with ''b@c.us'' 3, chat_with ''c@c.us'' 5]"

definition four_messages :: "message list" where
  "four_messages = [text_message 1, text_message 2, text_message 3, text_message 4]"

definition inbox_env :: env where
  "inbox_env = calm_env\<lparr>getChats := Inr inbox, fetchMessages := (\<lambda>_. Inr four_messages)\<rparr>"

definition prompted_world :: world where
  "prompted_world = snd (setupWhatsAppEventHandlers (fresh_world\<lparr>QrCodeMessageId := Some 7\<rparr>))"

definition picture_link_message :: message where
  "picture_link_message =
     \<lparr>id' = \<lparr>serialized = ''false_201002003000@c.us_3EB0A3''\<rparr>,
      from_jid = ''201002003000@c.us'',
      body = ''https://example.com/v/2'',
      timestamp = 44,
      hasMedia = True,
      links = [\<lparr>link = ''https://example.com/v/2''\<rparr>],
      deviceType = ''android''\<rparr>"

definition broken_media_env :: env where
  "broken_media_env = calm_env\<lparr>downloadMedia := (\<lambda>_. Inl (Failure ''media expired''))\<rparr>"

definition locked_file_env :: env where
  "locked_file_env =
     calm_env\<lparr>outcome := (\<lambda>ev. case ev of
        RemoveFile _ \<Rightarrow> Rejects (Failure ''EBUSY: resource busy or locked'')
      | _ \<Rightarrow> Completes)\<rparr>"

definition missing_file_env :: env where
  "missing_file_env =
     calm_env\<lparr>fromFilePath := (\<lambda>p. if p = ''downloads/2.jpg''
        then Inl (Failure ''ENOENT: no such file or directory'') else Inr picture)\<rparr>"

text \<open>
  The world after the handlers are set up and the client is ready; the same world after a
  disconnection and a new QR code; and a world set up with a prompt whose id is \<open>0\<close>.
\<close>

definition ready_world :: world where
  "ready_world = snd (emit calm_env ClientReady (snd (setupWhatsAppEventHandlers fresh_world)))"

definition reprompted_world :: world where
  "reprompted_world
     = snd (on_qr calm_env ''2@h8LqXc'' (snd (on_disconnected calm_env ''LOGOUT'' ready_world)))"

definition zero_prompt_world :: world where
  "zero_prompt_world = snd (setupWhatsAppEventHandlers (fresh_world\<lparr>QrCodeMessageId := Some 0\<rparr>))"

section \<open>Reasoning about handlers\<close>

lemma split_not_Nil: "split sep s \<noteq> []"
  by (induction s) auto

lemma hd_split: "hd (split sep s) = takeWhile (\<lambda>c. c \<noteq> sep) s"
  by (induction s) auto

lemma split_first: "split sep s ! 0 = takeWhile (\<lambda>c. c \<noteq> sep) s"
  using split_not_Nil[of sep s] hd_split[of sep s] by (simp add: hd_conv_nth)

lemma keeps_ret: "keeps f (ret x)" by (simp add: keeps_def ret_def)

lemma keeps_raise: "keeps f (raise e)" by (simp add: keeps_def raise_def)

lemma keeps_await: "keeps f (await r)" by (cases r) (simp_all add: await_def keeps_ret keeps_raise)

lemma keeps_andThen: "keeps f m \<Longrightarrow> (\<And>x. keeps f (g x)) \<Longrightarrow> keeps f (andThen m g)"
  by (auto simp: keeps_def andThen_def split: prod.splits sum.splits) (metis snd_conv)+

lemma keeps_if: "(c \<Longrightarrow> keeps f m) \<Longrightarrow> (\<not> c \<Longrightarrow> keeps f n) \<Longrightarrow> keeps f (if c then m else n)"
  by simp

lemma keeps_users_fire: "keeps users (fire env ev)"
  by (simp add: keeps_def fire_def Let_def split: option.splits)

lemma keeps_users_issue: "keeps users (issue ev)"
  by (simp add: keeps_def issue_def)

lemmas keeps_intros = keeps_ret keeps_raise keeps_await keeps_andThen keeps_if keeps_users_fire keeps_users_issue

lemma keeps_users_sticker: "keeps users (sticker_path env msg user)"
  unfolding sticker_path_def by (intro keeps_intros)

lemma keeps_users_link: "keeps users (link_path env msg n user)"
  unfolding link_path_def Let_def by (intro keeps_intros)

lemma await_Inr: "await (Inr x) = ret x" by (simp add: await_def)

lemma await_Inl: "await (Inl e) = raise e" by (simp add: await_def)

lemma andThen_ret: "andThen (ret x) f = f x" by (simp add: andThen_def ret_def)

lemma andThen_raise: "andThen (raise e) f = raise e" by (simp add: andThen_def raise_def)

lemma andThen_Inr: "m w = (Inr x, w') \<Longrightarrow> andThen m f w = f x w'" by (simp add: andThen_def)

lemmas prog_simps = await_Inr await_Inl andThen_ret andThen_raise

lemma users_try_catch_log: "users (snd (try_catch m (\<lambda>e. console_log s (Err e)) w)) = users (snd (m w))"
  by (simp add: try_catch_def console_log_def split: prod.splits sum.splits)

lemma createOrUpdateUser_ok:
  "failure (outcome env (PrismaUserUpsert p)) = None \<Longrightarrow>
   createOrUpdateUser env p w =
     (Inr (upsert_row env (users w) p),
      w\<lparr>calls := calls w @ [PrismaUserUpsert p],
        users := (users w)(phone p \<mapsto> upsert_row env (users w) p)\<rparr>)"
  by (simp add: createOrUpdateUser_def andThen_def await_call_def Let_def)

lemma columns_upsert_row: "columns (upsert_row env t p) = p"
  by (simp add: upsert_row_def split: option.splits)

lemma message_body_upto_user:
  assumes "getChat env msg = Inr chatInfo" "\<not> isGroup chatInfo" "\<not> isReadOnly chatInfo"
    and "getContact env msg = Inr contactInfo"
    and "getFormattedNumber env contactInfo = Inr userNumber"
    and "failure (outcome env (PrismaUserUpsert (userPayload msg contactInfo userNumber))) = None"
  shows "message_body env msg w =
     (let p = userPayload msg contactInfo userNumber; user = upsert_row env (users w) p in
      andThen (fire env (IdentifyUser (id' user) p)) (\<lambda>_.
      andThen (fire env (TrackEvent ''message_received'' (id' user)
                    (Received (hasMedia msg) (0 < length (links msg)) (deviceType msg) msg))) (\<lambda>_.
      andThen (sticker_path env msg user) (\<lambda>_.
      link_path env msg userNumber user)))
      (w\<lparr>calls := calls w @ [PrismaUserUpsert p], users := (users w)(phone p \<mapsto> user)\<rparr>))"
  using assms
  by (simp add: message_body_def prog_simps andThen_Inr[OF createOrUpdateUser_ok] Let_def)

lemma fire_ok:
  "sync_throw (outcome env ev) = None \<Longrightarrow>
   fire env ev w = (Inr (), w\<lparr>calls := calls w @ [ev],
                              unhandled := unhandled w @ rejections (outcome env ev)\<rparr>)"
  by (simp add: fire_def Let_def)

lemma andThen_fire:
  "sync_throw (outcome env ev) = None \<Longrightarrow>
   andThen (fire env ev) f w = f () (w\<lparr>calls := calls w @ [ev],
                              unhandled := unhandled w @ rejections (outcome env ev)\<rparr>)"
  by (simp add: andThen_Inr[OF fire_ok])

lemma andThen_issue:
  "andThen (issue ev) f w = f () (w\<lparr>calls := calls w @ [ev]\<rparr>)"
  by (simp add: andThen_def issue_def)

lemma ret_apply: "ret x w = (Inr x, w)" by (simp add: ret_def)

lemma issued_emits: "emits m w r evs \<Longrightarrow> issued m w = evs"
  by (simp add: emits_def issued_def)

lemma emits_ret: "emits (ret x) w (Inr x) []" by (simp add: emits_def ret_def)

lemma emits_fire: "sync_throw (outcome env ev) = None \<Longrightarrow> emits (fire env ev) w (Inr ()) [ev]"
  by (simp add: emits_def fire_ok)

lemma emits_await_call:
  "failure (outcome env ev) = None \<Longrightarrow> emits (await_call env ev) w (Inr ()) [ev]"
  by (simp add: emits_def await_call_def Let_def)

lemma emits_andThen:
  "emits m w (Inr x) e1 \<Longrightarrow> (\<And>w'. emits (f x) w' r e2) \<Longrightarrow> emits (andThen m f) w r (e1 @ e2)"
  by (cases "m w") (simp add: emits_def andThen_def)

lemma emits_try_catch_Inr:
  "emits m w (Inr x) evs \<Longrightarrow> emits (try_catch m h) w (Inr x) evs"
  by (cases "m w") (simp add: emits_def try_catch_def)












lemma sticker_path_emits:
  assumes media: "hasMedia msg \<longrightarrow> downloadMedia env msg = Inr media"
    and no_throw: "\<forall>ev. sync_throw (outcome env ev) = None"
  shows "emits (sticker_path env msg user) w (Inr ())
     (if hasMedia msg \<and> (mimetype media = ''image/jpeg'' \<or> mimetype media = ''image/png'')
      then [StickersCreate (id' user) (timestamp msg) (body msg),
            Reply msg (sticker_reply media),
            TrackEvent ''sticker_created'' (id' user) NoProps]
      else [])"
  using assms
  by (cases media) (simp add: emits_def sticker_path_def andThen_fire prog_simps fire_ok ret_apply)

lemma link_path_emits_job:
  assumes one_link: "links msg = [l]"
    and not_limited: "isRatedLimited env userNumber = Inr False"
    and created: "downloads_create env (link l) UNKNOWN (id' user) (timestamp msg) = Inr record"
    and no_throw: "\<forall>ev. sync_throw (outcome env ev) = None"
  shows "emits (link_path env msg userNumber user) w (Inr ())
     [DownloadsCreate (link l) UNKNOWN (id' user) (timestamp msg),
      TrackEvent ''download_requested'' (id' user) (MessageProp msg),
      AddJobToDownloaderQueue (string_of_nat (timestamp msg) @ ''-'' @ userNumber)
                \<lparr>downloadId = id' record, url = link l, message = msg\<rparr>]"
  using assms
  by (simp add: emits_def link_path_def Let_def andThen_fire andThen_issue prog_simps fire_ok
      del: string_of_nat.simps)

lemma link_path_emits_limited:
  assumes links: "links msg \<noteq> []"
    and limited: "isRatedLimited env userNumber = Inr True"
    and no_throw: "\<forall>ev. sync_throw (outcome env ev) = None"
  shows "emits (link_path env msg userNumber user) w (Inr ())
     [TrackEvent ''rate_limited'' (id' user) NoProps, Reply msg (Text rate_limit_notice)]"
  using assms
  by (simp add: emits_def link_path_def Let_def andThen_fire andThen_issue prog_simps fire_ok
      del: string_of_nat.simps)


lemma message_body_emits:
  assumes chat: "getChat env msg = Inr chatInfo" "\<not> isGroup chatInfo" "\<not> isReadOnly chatInfo"
    and contact: "getContact env msg = Inr contactInfo"
      "getFormattedNumber env contactInfo = Inr userNumber"
    and upsert: "failure (outcome env (PrismaUserUpsert (userPayload msg contactInfo userNumber))) = None"
    and no_throw: "\<forall>ev. sync_throw (outcome env ev) = None"
    and user: "user = upsert_row env (users w) (userPayload msg contactInfo userNumber)"
    and S: "\<And>w'. emits (sticker_path env msg user) w' (Inr ()) S"
    and L: "\<And>w'. emits (link_path env msg userNumber user) w' r L"
  shows "emits (message_body env msg) w r
     ([PrismaUserUpsert (userPayload msg contactInfo userNumber),
       IdentifyUser (id' user) (userPayload msg contactInfo userNumber),
       TrackEvent ''message_received'' (id' user)
         (Received (hasMedia msg) (0 < length (links msg)) (deviceType msg) msg)] @ S @ L)"
proof -
  let ?p = "userPayload msg contactInfo userNumber"
  let ?w1 = "w\<lparr>calls := calls w @ [PrismaUserUpsert ?p], users := (users w)(phone ?p \<mapsto> user)\<rparr>"
  have nt: "\<And>ev. sync_throw (outcome env ev) = None" using no_throw by simp
  have tail: "emits (andThen (fire env (IdentifyUser (id' user) ?p)) (\<lambda>_.
      andThen (fire env (TrackEvent ''message_received'' (id' user)
                    (Received (hasMedia msg) (0 < length (links msg)) (deviceType msg) msg))) (\<lambda>_.
      andThen (sticker_path env msg user) (\<lambda>_.
      link_path env msg userNumber user)))) ?w1 r
      ([IdentifyUser (id' user) ?p] @ [TrackEvent ''message_received'' (id' user)
         (Received (hasMedia msg) (0 < length (links msg)) (deviceType msg) msg)] @ S @ L)"
    using emits_andThen[OF emits_fire[OF nt] emits_andThen[OF emits_fire[OF nt] emits_andThen[OF S L]]]
    by simp
  show ?thesis
    using tail unfolding emits_def message_body_upto_user[OF chat contact upsert] Let_def user
    by simp
qed

lemma andThen_assoc: "andThen (andThen m f) g = andThen m (\<lambda>x. andThen (f x) g)"
  by (auto simp: andThen_def fun_eq_iff split: prod.splits sum.splits)

lemma issued_try_catch_log:
  "issued (try_catch m (\<lambda>e. console_log s (Err e))) w = issued m w"
  by (simp add: issued_def try_catch_def console_log_def split: prod.splits sum.splits)


lemma keeps_fire: "(\<And>w c u. f (w\<lparr>calls := c, unhandled := u\<rparr>) = f w) \<Longrightarrow> keeps f (fire env ev)"
  by (simp add: keeps_def fire_def Let_def split: option.splits)

lemma keeps_issue: "(\<And>w c. f (w\<lparr>calls := c\<rparr>) = f w) \<Longrightarrow> keeps f (issue ev)"
  by (simp add: keeps_def issue_def)

lemma keeps_await_call: "(\<And>w c. f (w\<lparr>calls := c\<rparr>) = f w) \<Longrightarrow> keeps f (await_call env ev)"
  by (simp add: keeps_def await_call_def Let_def split: option.splits)

lemma keeps_console_log: "(\<And>w c. f (w\<lparr>console := c\<rparr>) = f w) \<Longrightarrow> keeps f (console_log s x)"
  by (simp add: keeps_def console_log_def)

lemma keeps_try_catch: "keeps f m \<Longrightarrow> (\<And>e. keeps f (h e)) \<Longrightarrow> keeps f (try_catch m h)"
  by (auto simp: keeps_def try_catch_def split: prod.splits sum.splits) (metis snd_conv)+

lemma keeps_createOrUpdateUser:
  "(\<And>w c. f (w\<lparr>calls := c\<rparr>) = f w) \<Longrightarrow> (\<And>w u. f (w\<lparr>users := u\<rparr>) = f w)
   \<Longrightarrow> keeps f (createOrUpdateUser env p)"
  by (simp add: keeps_def createOrUpdateUser_def andThen_def await_call_def Let_def split: option.splits)

lemma keeps_unhandled_fire:
  "rejections (outcome env ev) = [] \<Longrightarrow> keeps unhandled (fire env ev)"
  by (simp add: keeps_def fire_def Let_def split: option.splits)

lemmas frame_intros = keeps_ret keeps_raise keeps_await keeps_andThen keeps_if keeps_try_catch
  keeps_fire keeps_issue keeps_await_call keeps_console_log keeps_createOrUpdateUser

lemma keeps_console_message_body: "keeps console (message_body env msg)"
  unfolding message_body_def sticker_path_def link_path_def Let_def
  by (intro frame_intros) simp_all

lemma keeps_unhandled_message_body:
  assumes "\<forall>ev. rejections (outcome env ev) = []"
  shows "keeps unhandled (message_body env msg)"
  unfolding message_body_def sticker_path_def link_path_def Let_def
  by (intro keeps_ret keeps_raise keeps_await keeps_andThen keeps_if keeps_issue
      keeps_createOrUpdateUser keeps_unhandled_fire) (simp_all add: assms)

lemma emits_reply_on:
  "sync_throw (outcome env (Reply m c)) = None \<Longrightarrow> emits (reply_on env (Some m) c) w (Inr ()) [Reply m c]"
  by (simp add: reply_on_def emits_fire)

lemma unread_loop_result:
  assumes fetched: "\<forall>c\<in>set chats. 0 < unreadCount c \<longrightarrow> fetchMessages env c = Inr (history c)"
  shows "\<exists>idx. unread_loop env chats (m, n) w = (Inr (idx, n + total_unread chats), w)
     \<and> dom idx = dom m \<union> chat_key ` set (unread chats)
     \<and> (\<forall>k. k \<notin> chat_key ` set (unread chats) \<longrightarrow> idx k = m k)
     \<and> (distinct (map chat_key chats) \<longrightarrow>
          (\<forall>c\<in>set (unread chats). idx (chat_key c) = Some (slice0 (unreadCount c) (rev (history c)))))"
  using fetched
proof (induction chats arbitrary: m n)
  case Nil
  show ?case by (simp add: ret_def unread_def total_unread_def)
next
  case (Cons c chats)
  have prem: "\<forall>c\<in>set chats. 0 < unreadCount c \<longrightarrow> fetchMessages env c = Inr (history c)"
    using Cons.prems by simp
  show ?case
  proof (cases "0 < unreadCount c")
    case False
    from Cons.IH[OF prem, of m n]
    obtain idx where idx: "unread_loop env chats (m, n) w = (Inr (idx, n + total_unread chats), w)"
      "dom idx = dom m \<union> chat_key ` set (unread chats)"
      "\<forall>k. k \<notin> chat_key ` set (unread chats) \<longrightarrow> idx k = m k"
      "distinct (map chat_key chats) \<longrightarrow>
          (\<forall>c\<in>set (unread chats). idx (chat_key c) = Some (slice0 (unreadCount c) (rev (history c))))"
      by blast
    show ?thesis
      using False idx by (intro exI[of _ idx]) (simp add: unread_def total_unread_def)
  next
    case True
    let ?e = "slice0 (unreadCount c) (rev (history c))"
    let ?m1 = "m(serialized (id' c) \<mapsto> ?e)"
    have f: "fetchMessages env c = Inr (history c)" using True Cons.prems by simp
    from Cons.IH[OF prem, of ?m1 "n + unreadCount c"]
    obtain idx where idx: "unread_loop env chats (?m1, n + unreadCount c) w
          = (Inr (idx, n + unreadCount c + total_unread chats), w)"
      "dom idx = dom ?m1 \<union> chat_key ` set (unread chats)"
      "\<forall>k. k \<notin> chat_key ` set (unread chats) \<longrightarrow> idx k = ?m1 k"
      "distinct (map chat_key chats) \<longrightarrow>
          (\<forall>c\<in>set (unread chats). idx (chat_key c) = Some (slice0 (unreadCount c) (rev (history c))))"
      by blast
    have run: "unread_loop env (c # chats) (m, n) w = (Inr (idx, n + total_unread (c # chats)), w)"
      using True f idx(1) by (simp add: prog_simps Let_def unread_def total_unread_def add.assoc)
    have d: "dom idx = dom m \<union> chat_key ` set (unread (c # chats))"
      using True idx(2) by (auto simp: unread_def chat_key_def)
    have o: "\<forall>k. k \<notin> chat_key ` set (unread (c # chats)) \<longrightarrow> idx k = m k"
      using True idx(3) by (auto simp: unread_def chat_key_def)
    have e: "distinct (map chat_key (c # chats)) \<longrightarrow>
          (\<forall>c'\<in>set (unread (c # chats)). idx (chat_key c') = Some (slice0 (unreadCount c') (rev (history c'))))"
    proof (intro impI ballI)
      fix c' assume dis: "distinct (map chat_key (c # chats))" and c': "c' \<in> set (unread (c # chats))"
      show "idx (chat_key c') = Some (slice0 (unreadCount c') (rev (history c')))"
      proof (cases "c' \<in> set (unread chats)")
        case True
        then show ?thesis using idx(4) dis by simp
      next
        case False
        then have "c' = c" using c' \<open>0 < unreadCount c\<close> by (auto simp: unread_def)
        moreover have "chat_key c \<notin> chat_key ` set (unread chats)"
          using dis by (auto simp: unread_def)
        ultimately show ?thesis using idx(3) by (simp add: chat_key_def)
      qed
    qed
    show ?thesis using run d o e by blast
  qed
qed

lemma getUnreadChats_result:
  assumes chats: "getChats env = Inr chats"
    and fetched: "\<forall>c\<in>set chats. 0 < unreadCount c \<longrightarrow> fetchMessages env c = Inr (history c)"
  shows "\<exists>idx. getUnreadChats env w
        = (Inr (Some idx),
           if total_unread chats \<noteq> unreadChats w
           then w\<lparr>unreadChats := total_unread chats,
                  unreadChats_writes := unreadChats_writes w @ [total_unread chats]\<rparr>
           else w)
     \<and> dom idx = chat_key ` set (unread chats)
     \<and> (distinct (map chat_key chats) \<longrightarrow>
          (\<forall>c\<in>set (unread chats). idx (chat_key c) = Some (slice0 (unreadCount c) (rev (history c)))))"
proof -
  from unread_loop_result[OF fetched, of Map.empty 0 w]
  obtain idx where idx: "unread_loop env chats (Map.empty, 0) w = (Inr (idx, total_unread chats), w)"
      "dom idx = chat_key ` set (unread chats)"
      "distinct (map chat_key chats) \<longrightarrow>
          (\<forall>c\<in>set (unread chats). idx (chat_key c) = Some (slice0 (unreadCount c) (rev (history c))))"
    by auto
  let ?W = "if total_unread chats \<noteq> unreadChats w
           then w\<lparr>unreadChats := total_unread chats,
                  unreadChats_writes := unreadChats_writes w @ [total_unread chats]\<rparr>
           else w"
  have store: "set_unreadChats (total_unread chats) w = (Inr (), ?W)"
    by (simp add: set_unreadChats_def reading_def modify_def ret_def)
  have tail: "andThen (set_unreadChats (total_unread chats)) (\<lambda>_. ret (Some idx)) w
      = (Inr (Some idx), ?W)"
    unfolding andThen_def store by (simp add: ret_def)
  have body: "andThen (await (getChats env)) (\<lambda>chats.
        andThen (unread_loop env chats (Map.empty, 0)) (\<lambda>(HashMap, count).
        andThen (set_unreadChats count) (\<lambda>_.
        ret (Some HashMap)))) w = (Inr (Some idx), ?W)"
    unfolding chats await_Inr andThen_ret
    by (subst andThen_def) (simp add: idx(1) tail)
  have "getUnreadChats env w = (Inr (Some idx), ?W)"
    unfolding getUnreadChats_def try_catch_def body by simp
  with idx(2,3) show ?thesis by blast
qed

lemma slice0_pos: "0 < n \<Longrightarrow> slice0 n xs = take (nat n) xs"
  by (simp add: slice0_def)

lemma total_unread_all:
  "\<forall>c\<in>set chats. 0 \<le> unreadCount c \<Longrightarrow> total_unread chats = sum_list (map unreadCount chats)"
  by (induction chats) (auto simp: total_unread_def unread_def)

lemma keeps_modify: "(\<And>w. f (upd w) = f w) \<Longrightarrow> keeps f (modify upd)"
  by (simp add: keeps_def modify_def)

lemma keeps_reading: "(\<And>x. keeps f (g x)) \<Longrightarrow> keeps f (reading field g)"
  by (simp add: keeps_def reading_def)

lemma keeps_case_option:
  "keeps f n \<Longrightarrow> (\<And>x. keeps f (s x)) \<Longrightarrow> keeps f (case v of None \<Rightarrow> n | Some x \<Rightarrow> s x)"
  by (cases v) simp_all

lemma keeps_case_prod: "(\<And>a b. keeps f (g a b)) \<Longrightarrow> keeps f (case p of (a, b) \<Rightarrow> g a b)"
  by (cases p) simp

lemma keeps_unread_loop: "keeps f (unread_loop env chats acc)"
proof (induction env chats acc rule: unread_loop.induct)
  case (1 env acc)
  show ?case by (simp add: keeps_ret)
next
  case (2 env c chats HashMap count)
  show ?case
    using 2 by (auto simp: Let_def intro!: keeps_andThen keeps_await)
qed

lemma keeps_getUnreadChats:
  assumes "\<And>w u ws. f (w\<lparr>unreadChats := u, unreadChats_writes := ws\<rparr>) = f w"
    and "\<And>w c. f (w\<lparr>console := c\<rparr>) = f w"
  shows "keeps f (getUnreadChats env)"
  unfolding getUnreadChats_def set_unreadChats_def
  by (intro keeps_try_catch keeps_andThen keeps_await keeps_unread_loop keeps_case_prod
      keeps_reading keeps_if keeps_modify keeps_ret keeps_console_log) (simp_all add: assms)

lemma getUnreadChats_returns: "\<exists>r. fst (getUnreadChats env w) = Inr r"
  by (auto simp: getUnreadChats_def try_catch_def andThen_def console_log_def ret_def
      split: prod.splits sum.splits)

lemma keeps_ready_listeners_on_ready: "keeps ready_listeners (on_ready env)"
  unfolding on_ready_def setupMessageHandler_def RegisterMessageCheck_def onQueueMessage_def
    onTelegramMessage_def registerBlockOnCalls_def clearQRCodes_def register_def
  by (intro keeps_andThen keeps_modify keeps_fire keeps_reading keeps_case_option keeps_ret
      keeps_if keeps_getUnreadChats) (simp_all add: ready_listeners_def)

lemma emit_ready_armed:
  assumes "ready_listeners w = [(ClientReady, True)]"
  shows "emit env ClientReady w
     = andThen (on_ready env) (\<lambda>_. ret ()) (w\<lparr>listeners := remove1 (ClientReady, True) (listeners w)\<rparr>)"
  using assms
  by (simp add: emit_def ready_listeners_def unregister_def andThen_def modify_def)

lemma emit_ready_unarmed:
  assumes "ready_listeners w = []"
  shows "emit env ClientReady w = (Inr (), w)"
  using assms by (simp add: emit_def ready_listeners_def ret_def)

lemma ready_listeners_after_emit:
  assumes "ready_listeners w = [(ClientReady, True)]"
  shows "ready_listeners (snd (emit env ClientReady w)) = []"
proof -
  let ?w0 = "w\<lparr>listeners := remove1 (ClientReady, True) (listeners w)\<rparr>"
  have "ready_listeners ?w0 = remove1 (ClientReady, True) (ready_listeners w)"
    by (simp add: ready_listeners_def filter_remove1)
  then have z: "ready_listeners ?w0 = []" using assms by simp
  have "keeps ready_listeners (andThen (on_ready env) (\<lambda>_. ret ()))"
    by (intro keeps_andThen keeps_ready_listeners_on_ready keeps_ret)
  then show ?thesis
    unfolding emit_ready_armed[OF assms] keeps_def using z by simp
qed

lemma andThen_modify: "andThen (modify upd) f w = f () (upd w)"
  by (simp add: andThen_def modify_def)

lemma modify_apply: "modify upd w = (Inr (), upd w)"
  by (simp add: modify_def)

lemma andThen_reading: "andThen (reading field g) f w = andThen (g (field w)) f w"
  by (simp add: andThen_def reading_def)

lemma andThen_returns: "fst (m w) = Inr r \<Longrightarrow> andThen m f w = f r (snd (m w))"
  by (cases "m w") (simp add: andThen_def)

lemma registration_part_result:
  "\<exists>w'. registration_part env w = (Inr (), w')
     \<and> listeners w' = listeners w @ ready_registrations
     \<and> calls w' = calls w
     \<and> QrCodeMessageId w' = QrCodeMessageId w"
proof -
  let ?wA = "w\<lparr>listeners := listeners w @ [(ClientMessage, False), (QueueDownloadCompleted, False),
                 (QueueDownloadFailed, False), (TelegramBroadcast, False)]\<rparr>"
  obtain r where r: "fst (getUnreadChats env ?wA) = Inr r"
    using getUnreadChats_returns by blast
  let ?wB = "snd (getUnreadChats env ?wA)"
  have k: "listeners ?wB = listeners ?wA" "calls ?wB = calls ?wA"
      "QrCodeMessageId ?wB = QrCodeMessageId ?wA"
    using keeps_getUnreadChats[of listeners env] keeps_getUnreadChats[of calls env]
      keeps_getUnreadChats[of QrCodeMessageId env]
    by (simp_all add: keeps_def)
  have "registration_part env w
      = (Inr (), ?wB\<lparr>listeners := listeners ?wB @ [(UnreadInterval, False), (ClientCall, False)]\<rparr>)"
    by (simp add: registration_part_def setupMessageHandler_def RegisterMessageCheck_def
        onQueueMessage_def onTelegramMessage_def registerBlockOnCalls_def register_def
        andThen_assoc andThen_modify modify_apply
        andThen_returns[where m="getUnreadChats env" and w="?wA", OF r])
  then show ?thesis
    using k by (simp add: ready_registrations_def)
qed

lemma on_ready_split:
  "on_ready env =
     andThen (modify (\<lambda>w. w\<lparr>isAuthenticated := True\<rparr>)) (\<lambda>_.
     andThen (fire env (TelegramSendMessage ''WhatsApp client is ready!'')) (\<lambda>_.
     andThen (fire env (TrackEvent ''system_event'' ''system'' (EventType ''whatsapp_ready''))) (\<lambda>_.
     andThen (reading QrCodeMessageId (\<lambda>prompt.
        case prompt of
          None \<Rightarrow> ret ()
        | Some qr \<Rightarrow>
            if qr = 0 then ret ()
            else
              andThen (fire env (TelegramDeleteMessage qr)) (\<lambda>_.
              andThen (modify (\<lambda>w. w\<lparr>QrCodeMessageId := None\<rparr>)) (\<lambda>_.
              andThen (clearQRCodes env) (\<lambda>_.
              fire env (TrackEvent ''system_event'' ''system''
                          (EventType ''qrcode_authentication_completed'')))))))
       (\<lambda>_.
     registration_part env))))"
  by (simp add: on_ready_def registration_part_def)

lemma on_ready_result:
  assumes no_throw: "\<forall>ev. sync_throw (outcome env ev) = None"
  shows "\<exists>w'. on_ready env w = (Inr (), w')
     \<and> listeners w' = listeners w @ ready_registrations
     \<and> calls w' = calls w @ ready_calls env (QrCodeMessageId w)
     \<and> QrCodeMessageId w'
         = (case QrCodeMessageId w of None \<Rightarrow> None | Some qr \<Rightarrow> if qr = 0 then Some 0 else None)"
proof -
  let ?w3 = "w\<lparr>isAuthenticated := True,
      calls := calls w @ [TelegramSendMessage ''WhatsApp client is ready!'',
          TrackEvent ''system_event'' ''system'' (EventType ''whatsapp_ready'')],
      unhandled := (unhandled w @ rejections (outcome env (TelegramSendMessage ''WhatsApp client is ready!'')))
          @ rejections (outcome env (TrackEvent ''system_event'' ''system'' (EventType ''whatsapp_ready'')))\<rparr>"
  consider (none) "QrCodeMessageId w = None" | (zero) "QrCodeMessageId w = Some 0"
    | (shown) qr where "QrCodeMessageId w = Some qr" "qr \<noteq> 0"
    by (cases "QrCodeMessageId w") auto
  then show ?thesis
  proof cases
    case none
    have "on_ready env w = registration_part env ?w3"
      using none no_throw
      by (simp add: on_ready_split andThen_modify andThen_fire andThen_reading prog_simps)
    with registration_part_result[of env ?w3] show ?thesis
      using none by (auto simp: ready_calls_def)
  next
    case zero
    have "on_ready env w = registration_part env ?w3"
      using zero no_throw
      by (simp add: on_ready_split andThen_modify andThen_fire andThen_reading prog_simps)
    with registration_part_result[of env ?w3] show ?thesis
      using zero by (auto simp: ready_calls_def)
  next
    case shown
    let ?w7 = "w\<lparr>isAuthenticated := True, QrCodeMessageId := None,
      calls := calls w @ [TelegramSendMessage ''WhatsApp client is ready!'',
          TrackEvent ''system_event'' ''system'' (EventType ''whatsapp_ready''),
          TelegramDeleteMessage qr, RemoveFile (qrCodePath env),
          TrackEvent ''system_event'' ''system'' (EventType ''qrcode_authentication_completed'')],
      unhandled := ((((unhandled w @ rejections (outcome env (TelegramSendMessage ''WhatsApp client is ready!'')))
          @ rejections (outcome env (TrackEvent ''system_event'' ''system'' (EventType ''whatsapp_ready''))))
          @ rejections (outcome env (TelegramDeleteMessage qr)))
          @ rejections (outcome env (RemoveFile (qrCodePath env))))
          @ rejections (outcome env (TrackEvent ''system_event'' ''system''
                        (EventType ''qrcode_authentication_completed'')))\<rparr>"
    have "on_ready env w = registration_part env ?w7"
      using shown no_throw
      by (simp add: on_ready_split andThen_modify andThen_fire andThen_reading prog_simps
          clearQRCodes_def andThen_assoc)
    with registration_part_result[of env ?w7] show ?thesis
      using shown by (auto simp: ready_calls_def)
  qed
qed

lemma setup_arms_ready:
  "ready_listeners (snd (setupWhatsAppEventHandlers w)) = ready_listeners w @ [(ClientReady, True)]"
  by (simp add: setupWhatsAppEventHandlers_def register_def andThen_modify modify_apply
      ready_listeners_def)

lemma raise_apply: "raise e w = (Inl e, w)"
  by (simp add: raise_def)

lemma try_catch_swallow: "fst (try_catch m (\<lambda>e. ret ()) w) = Inr ()"
  by (cases "m w") (auto simp: try_catch_def ret_def split: sum.splits)

lemma issued_try_catch_swallow: "issued (try_catch m (\<lambda>e. ret x)) w = issued m w"
  by (simp add: issued_def try_catch_def ret_def split: prod.splits sum.splits)

lemma andThen_fire_throws:
  "sync_throw (outcome env ev) = Some e \<Longrightarrow>
   andThen (fire env ev) f w = (Inl e, w\<lparr>calls := calls w @ [ev],
                              unhandled := unhandled w @ rejections (outcome env ev)\<rparr>)"
  by (simp add: andThen_def fire_def Let_def)

lemma calls_fire: "calls (snd (fire env ev w)) = calls w @ [ev]"
  by (simp add: fire_def Let_def split: option.splits)

lemma emits_andThen_Inl:
  "emits m w (Inl e) e1 \<Longrightarrow> emits (andThen m f) w (Inl e) e1"
  by (cases "m w") (simp add: emits_def andThen_def)

lemma sticker_path_emits_fails:
  assumes "hasMedia msg" "downloadMedia env msg = Inl e"
  shows "emits (sticker_path env msg user) w (Inl e) []"
  using assms by (simp add: sticker_path_def prog_simps emits_def raise_apply)

lemma message_body_emits_sticker_raises:
  assumes chat: "getChat env msg = Inr chatInfo" "\<not> isGroup chatInfo" "\<not> isReadOnly chatInfo"
    and contact: "getContact env msg = Inr contactInfo"
      "getFormattedNumber env contactInfo = Inr userNumber"
    and upsert: "failure (outcome env (PrismaUserUpsert (userPayload msg contactInfo userNumber))) = None"
    and no_throw: "\<forall>ev. sync_throw (outcome env ev) = None"
    and user: "user = upsert_row env (users w) (userPayload msg contactInfo userNumber)"
    and S: "\<And>w'. emits (sticker_path env msg user) w' (Inl e) S"
  shows "emits (message_body env msg) w (Inl e)
     ([PrismaUserUpsert (userPayload msg contactInfo userNumber),
       IdentifyUser (id' user) (userPayload msg contactInfo userNumber),
       TrackEvent ''message_received'' (id' user)
         (Received (hasMedia msg) (0 < length (links msg)) (deviceType msg) msg)] @ S)"
proof -
  let ?p = "userPayload msg contactInfo userNumber"
  let ?w1 = "w\<lparr>calls := calls w @ [PrismaUserUpsert ?p], users := (users w)(phone ?p \<mapsto> user)\<rparr>"
  have nt: "\<And>ev. sync_throw (outcome env ev) = None" using no_throw by simp
  have tail: "emits (andThen (fire env (IdentifyUser (id' user) ?p)) (\<lambda>_.
      andThen (fire env (TrackEvent ''message_received'' (id' user)
                    (Received (hasMedia msg) (0 < length (links msg)) (deviceType msg) msg))) (\<lambda>_.
      andThen (sticker_path env msg user) (\<lambda>_.
      link_path env msg userNumber user)))) ?w1 (Inl e)
      ([IdentifyUser (id' user) ?p] @ [TrackEvent ''message_received'' (id' user)
         (Received (hasMedia msg) (0 < length (links msg)) (deviceType msg) msg)] @ S)"
    using emits_andThen[OF emits_fire[OF nt] emits_andThen[OF emits_fire[OF nt] emits_andThen_Inl[OF S]]]
    by simp
  show ?thesis
    using tail unfolding emits_def message_body_upto_user[OF chat contact upsert] Let_def user
    by simp
qed

lemma emits_on_message:
  assumes "emits (message_body env msg) w r evs"
  shows "issued (on_message env msg) w = evs"
    and "fst (on_message env msg w) = Inr ()"
    and "console (snd (on_message env msg w))
          = console w @ (case r of Inl e \<Rightarrow> [(''Error in message handler'', Err e)] | Inr _ \<Rightarrow> [])"
proof -
  obtain w' where b: "message_body env msg w = (r, w')" "calls w' = calls w @ evs"
    using assms by (cases "message_body env msg w") (simp add: emits_def)
  have c: "console w' = console w"
    using keeps_console_message_body[of env msg] b(1) unfolding keeps_def by (metis snd_conv)
  show "issued (on_message env msg) w = evs"
    unfolding on_message_def issued_try_catch_log using assms by (rule issued_emits)
  show "fst (on_message env msg w) = Inr ()"
    using b by (cases r) (simp_all add: on_message_def try_catch_def console_log_def)
  show "console (snd (on_message env msg w))
          = console w @ (case r of Inl e \<Rightarrow> [(''Error in message handler'', Err e)] | Inr _ \<Rightarrow> [])"
    using b c by (cases r) (simp_all add: on_message_def try_catch_def console_log_def)
qed

lemma users_after_message:
  assumes chat: "getChat env msg = Inr chatInfo" "\<not> isGroup chatInfo" "\<not> isReadOnly chatInfo"
    and contact: "getContact env msg = Inr contactInfo"
      "getFormattedNumber env contactInfo = Inr userNumber"
    and upsert: "failure (outcome env (PrismaUserUpsert (userPayload msg contactInfo userNumber))) = None"
  shows "users (snd (on_message env msg w))
     = (users w)(userNumber \<mapsto> upsert_row env (users w) (userPayload msg contactInfo userNumber))"
proof -
  let ?p = "userPayload msg contactInfo userNumber"
  let ?user = "upsert_row env (users w) ?p"
  let ?w1 = "w\<lparr>calls := calls w @ [PrismaUserUpsert ?p], users := (users w)(phone ?p \<mapsto> ?user)\<rparr>"
  have tail: "keeps users (andThen (fire env (IdentifyUser (id' ?user) ?p)) (\<lambda>_.
      andThen (fire env (TrackEvent ''message_received'' (id' ?user)
                    (Received (hasMedia msg) (0 < length (links msg)) (deviceType msg) msg))) (\<lambda>_.
      andThen (sticker_path env msg ?user) (\<lambda>_.
      link_path env msg userNumber ?user))))"
    by (intro keeps_intros keeps_users_sticker keeps_users_link)
  have "users (snd (on_message env msg w)) = users (snd (message_body env msg w))"
    by (simp add: on_message_def users_try_catch_log)
  also have "\<dots> = users ?w1"
    using tail by (simp add: message_body_upto_user[OF assms] Let_def keeps_def)
  finally show ?thesis
    by (simp add: userPayload_def)
qed

lemma escapes_Nil: "escapes env [] = []"
  by (simp add: escapes_def)

lemma escapes_append: "escapes env (a @ b) = escapes env a @ escapes env b"
  by (simp add: escapes_def)

lemma tracks_ret: "tracks env (ret x)"
  by (simp add: tracks_def ret_def escapes_Nil)

lemma tracks_raise: "tracks env (raise e)"
  by (simp add: tracks_def raise_def escapes_Nil)

lemma tracks_await: "tracks env (await r)"
  by (cases r) (simp_all add: await_def tracks_ret tracks_raise)

lemma tracks_fire: "\<not> awaited_call ev \<Longrightarrow> raised_by env ev = sync_throw (outcome env ev) \<Longrightarrow> tracks env (fire env ev)"
  unfolding tracks_def
  by (intro allI exI[of _ "[ev]"]) (simp add: fire_def Let_def escapes_def split: option.splits)

lemma tracks_issue: "awaited_call ev \<Longrightarrow> raised_by env ev = None \<Longrightarrow> tracks env (issue ev)"
  unfolding tracks_def
  by (intro allI exI[of _ "[ev]"]) (simp add: issue_def escapes_def)

lemma tracks_await_call:
  "awaited_call ev \<Longrightarrow> raised_by env ev = failure (outcome env ev) \<Longrightarrow> tracks env (await_call env ev)"
  unfolding tracks_def
  by (intro allI exI[of _ "[ev]"]) (simp add: await_call_def Let_def escapes_def split: option.splits)

lemma tracks_if: "(c \<Longrightarrow> tracks env m) \<Longrightarrow> (\<not> c \<Longrightarrow> tracks env n) \<Longrightarrow> tracks env (if c then m else n)"
  by simp

lemma tracks_andThen:
  assumes "tracks env m" "\<And>x. tracks env (f x)"
  shows "tracks env (andThen m f)"
  unfolding tracks_def
proof
  fix w
  obtain r w' where mw: "m w = (r, w')" by (cases "m w")
  from assms(1) mw obtain e1 where e1: "calls w' = calls w @ e1"
      "unhandled w' = unhandled w @ escapes env e1"
      "\<forall>ev\<in>set e1. \<forall>e. raised_by env ev = Some e \<longrightarrow> r = Inl e"
    unfolding tracks_def by (metis fst_conv snd_conv)
  show "\<exists>evs. calls (snd (andThen m f w)) = calls w @ evs
        \<and> unhandled (snd (andThen m f w)) = unhandled w @ escapes env evs
        \<and> (\<forall>ev\<in>set evs. \<forall>e. raised_by env ev = Some e \<longrightarrow> fst (andThen m f w) = Inl e)"
  proof (cases r)
    case (Inl e)
    then show ?thesis using mw e1 by (intro exI[of _ e1]) (simp add: andThen_def)
  next
    case (Inr x)
    from assms(2)[of x] obtain e2 where e2: "calls (snd (f x w')) = calls w' @ e2"
      "unhandled (snd (f x w')) = unhandled w' @ escapes env e2"
      "\<forall>ev\<in>set e2. \<forall>e. raised_by env ev = Some e \<longrightarrow> fst (f x w') = Inl e"
      unfolding tracks_def by blast
    have none: "\<forall>ev\<in>set e1. raised_by env ev = None"
      using e1(3) Inr by (metis not_Some_eq sum.distinct(1))
    show ?thesis
      using mw e1(1,2) e2 Inr none
      by (intro exI[of _ "e1 @ e2"]) (auto simp: andThen_def escapes_append)
  qed
qed

lemma tracks_createOrUpdateUser: "tracks env (createOrUpdateUser env p)"
  unfolding tracks_def
  by (intro allI exI[of _ "[PrismaUserUpsert p]"])
    (simp add: createOrUpdateUser_def andThen_def await_call_def Let_def escapes_def
      awaited_call_def raised_by_def split: option.splits)

lemma tracks_message_body: "tracks env (message_body env msg)"
  unfolding message_body_def sticker_path_def link_path_def Let_def
  by (intro tracks_andThen tracks_await tracks_if tracks_ret tracks_fire tracks_issue
      tracks_createOrUpdateUser) (simp_all add: awaited_call_def raised_by_def)

lemma succeeds_ret: "succeeds (ret x)" by (simp add: succeeds_def ret_def)

lemma succeeds_await: "\<exists>x. r = Inr x \<Longrightarrow> succeeds (await r)"
  by (auto simp: succeeds_def await_def ret_def)

lemma succeeds_fire: "sync_throw (outcome env ev) = None \<Longrightarrow> succeeds (fire env ev)"
  by (simp add: succeeds_def fire_def Let_def)

lemma succeeds_issue: "succeeds (issue ev)" by (simp add: succeeds_def issue_def)

lemma succeeds_if: "(c \<Longrightarrow> succeeds m) \<Longrightarrow> (\<not> c \<Longrightarrow> succeeds n) \<Longrightarrow> succeeds (if c then m else n)"
  by simp

lemma succeeds_andThen: "succeeds m \<Longrightarrow> (\<And>x. succeeds (f x)) \<Longrightarrow> succeeds (andThen m f)"
  unfolding succeeds_def andThen_def
  by (auto split: prod.splits sum.splits) (metis fst_conv sum.distinct(1))+

lemma succeeds_createOrUpdateUser:
  "failure (outcome env (PrismaUserUpsert p)) = None \<Longrightarrow> succeeds (createOrUpdateUser env p)"
  by (simp add: succeeds_def createOrUpdateUser_def andThen_def await_call_def Let_def)

lemma succeeds_message_body:
  assumes "answers env"
  shows "succeeds (message_body env msg)"
proof -
  have a: "\<And>m. \<exists>c. getChat env m = Inr c" "\<And>m. \<exists>c. getContact env m = Inr c"
    "\<And>c. \<exists>n. getFormattedNumber env c = Inr n" "\<And>m. \<exists>x. downloadMedia env m = Inr x"
    "\<And>n. \<exists>b. isRatedLimited env n = Inr b"
    "\<And>u s owner t. \<exists>d. downloads_create env u s owner t = Inr d"
    and r: "\<And>ev. raised_by env ev = None"
    using assms unfolding answers_def by blast+
  have u: "\<And>p. failure (outcome env (PrismaUserUpsert p)) = None"
    using r[of "PrismaUserUpsert _"] by (simp add: raised_by_def)
  have t: "sync_throw (outcome env (IdentifyUser x y)) = None"
    "sync_throw (outcome env (TrackEvent n s q)) = None"
    "sync_throw (outcome env (StickersCreate i j k)) = None"
    "sync_throw (outcome env (Reply m c)) = None"
    "sync_throw (outcome env (AddJobToDownloaderQueue key d)) = None" for x y n s q i j k m c key d
    using r[of "IdentifyUser x y"] r[of "TrackEvent n s q"] r[of "StickersCreate i j k"]
      r[of "Reply m c"] r[of "AddJobToDownloaderQueue key d"]
    by (simp_all add: raised_by_def)
  show ?thesis
    unfolding message_body_def sticker_path_def link_path_def Let_def
    by (intro succeeds_andThen succeeds_await succeeds_if succeeds_ret succeeds_fire succeeds_issue
        succeeds_createOrUpdateUser a u t)
qed

lemma logged_onceI: "emits (message_body env msg) w (Inl e) evs \<Longrightarrow> logged_once env msg w e"
  unfolding logged_once_def by (simp add: emits_on_message(3))

lemma body_fails_at_chat:
  "getChat env msg = Inl e \<Longrightarrow> emits (message_body env msg) w (Inl e) []"
  by (simp add: message_body_def prog_simps emits_def raise_apply)

lemma body_fails_at_contact:
  "getChat env msg = Inr chatInfo \<Longrightarrow> \<not> isGroup chatInfo \<Longrightarrow> \<not> isReadOnly chatInfo \<Longrightarrow>
   getContact env msg = Inl e \<Longrightarrow> emits (message_body env msg) w (Inl e) []"
  by (simp add: message_body_def prog_simps emits_def raise_apply)

lemma body_fails_at_number:
  "getChat env msg = Inr chatInfo \<Longrightarrow> \<not> isGroup chatInfo \<Longrightarrow> \<not> isReadOnly chatInfo \<Longrightarrow>
   getContact env msg = Inr contactInfo \<Longrightarrow> getFormattedNumber env contactInfo = Inl e \<Longrightarrow>
   emits (message_body env msg) w (Inl e) []"
  by (simp add: message_body_def prog_simps emits_def raise_apply)

lemma createOrUpdateUser_fails:
  "failure (outcome env (PrismaUserUpsert p)) = Some e \<Longrightarrow>
   createOrUpdateUser env p w = (Inl e, w\<lparr>calls := calls w @ [PrismaUserUpsert p]\<rparr>)"
  by (simp add: createOrUpdateUser_def andThen_def await_call_def Let_def)

lemma body_fails_at_upsert:
  assumes "getChat env msg = Inr chatInfo" "\<not> isGroup chatInfo" "\<not> isReadOnly chatInfo"
    "getContact env msg = Inr contactInfo" "getFormattedNumber env contactInfo = Inr userNumber"
    "failure (outcome env (PrismaUserUpsert (userPayload msg contactInfo userNumber))) = Some e"
  shows "emits (message_body env msg) w (Inl e) [PrismaUserUpsert (userPayload msg contactInfo userNumber)]"
  using assms
  by (simp add: message_body_def prog_simps emits_def
      andThen_def[of "createOrUpdateUser env (userPayload msg contactInfo userNumber)"]
      createOrUpdateUser_fails)

lemma link_path_fails_at_limiter:
  "links msg \<noteq> [] \<Longrightarrow> isRatedLimited env userNumber = Inl e \<Longrightarrow>
   emits (link_path env msg userNumber user) w (Inl e) []"
  by (simp add: link_path_def prog_simps emits_def raise_apply)

lemma link_path_fails_at_create:
  "links msg = l # ls \<Longrightarrow> isRatedLimited env userNumber = Inr False \<Longrightarrow>
   downloads_create env (link l) UNKNOWN (id' user) (timestamp msg) = Inl e \<Longrightarrow>
   emits (link_path env msg userNumber user) w (Inl e)
     [DownloadsCreate (link l) UNKNOWN (id' user) (timestamp msg)]"
  by (simp add: link_path_def Let_def prog_simps emits_def andThen_issue raise_apply)

lemma unhandled_try_catch_log:
  "unhandled (snd (try_catch m (\<lambda>e. console_log s (Err e)) w)) = unhandled (snd (m w))"
  by (simp add: try_catch_def console_log_def split: prod.splits sum.splits)

lemma console_on_message:
  "console (snd (on_message env msg w))
     = console w @ (case fst (message_body env msg w) of
                      Inl e \<Rightarrow> [(''Error in message handler'', Err e)]
                    | Inr _ \<Rightarrow> [])"
proof -
  obtain r w' where b: "message_body env msg w = (r, w')" by (cases "message_body env msg w")
  have c: "console w' = console w"
    using keeps_console_message_body[of env msg] b unfolding keeps_def by (metis snd_conv)
  show ?thesis
    using b c by (cases r) (simp_all add: on_message_def try_catch_def console_log_def)
qed

lemma on_message_returns: "fst (on_message env msg w) = Inr ()"
  by (cases "message_body env msg w"; cases "fst (message_body env msg w)")
    (simp_all add: on_message_def try_catch_def console_log_def)

lemma unhandled_on_message: "unhandled (snd (on_message env msg w))
      = unhandled w @ escapes env (issued (on_message env msg) w)"
  and thrown_on_message: "ev \<in> set (issued (on_message env msg) w) \<Longrightarrow> raised_by env ev = Some e
      \<Longrightarrow> logged_once env msg w e"
proof -
  from tracks_message_body[of env msg]
  obtain evs where evs: "calls (snd (message_body env msg w)) = calls w @ evs"
    "unhandled (snd (message_body env msg w)) = unhandled w @ escapes env evs"
    "\<forall>ev\<in>set evs. \<forall>e. raised_by env ev = Some e \<longrightarrow> fst (message_body env msg w) = Inl e"
    unfolding tracks_def by blast
  have i: "issued (on_message env msg) w = evs"
    unfolding on_message_def issued_try_catch_log by (simp add: issued_def evs(1))
  show "unhandled (snd (on_message env msg w))
      = unhandled w @ escapes env (issued (on_message env msg) w)"
    unfolding i by (simp add: on_message_def unhandled_try_catch_log evs(2))
  show "ev \<in> set (issued (on_message env msg) w) \<Longrightarrow> raised_by env ev = Some e
      \<Longrightarrow> logged_once env msg w e"
    unfolding i logged_once_def console_on_message using evs(3) by auto
qed

lemma rejected_simps:
  "rejected env [] = []"
  "rejected env (ev # evs) = rejections (outcome env ev) @ rejected env evs"
  "rejected env (xs @ ys) = rejected env xs @ rejected env ys"
  by (simp_all add: rejected_def)

lemma no_failure_no_rejection: "failure r = None \<Longrightarrow> rejections r = []"
  by (cases r) simp_all

lemma andThen_await_call:
  "failure (outcome env ev) = None \<Longrightarrow>
   andThen (await_call env ev) f w = f () (w\<lparr>calls := calls w @ [ev]\<rparr>)"
  by (simp add: andThen_def await_call_def Let_def)

lemma deliver_run:
  assumes resolved: "getMessageById env (serialized (id' (message (data job)))) = Inr (Some original)"
    and loaded: "\<forall>a\<in>set arts. fromFilePath env (path a) = Inr (loaded a)"
    and replied: "\<forall>a\<in>set arts. sync_throw (outcome env (Reply original (Media (loaded a)))) = None"
    and removed: "\<forall>a\<in>set arts. failure (outcome env (RemoveFile (path a))) = None"
    and tracked: "\<forall>n u p. sync_throw (outcome env (TrackEvent n u p)) = None"
  shows "deliver env job arts w
     = (Inr (), w\<lparr>calls := calls w @ concat (map (delivery original job loaded) arts),
                  unhandled := unhandled w
                     @ rejected env (concat (map (delivery original job loaded) arts))\<rparr>)"
  using loaded replied removed
proof (induction arts arbitrary: w)
  case Nil
  show ?case by (simp add: ret_apply rejected_simps)
next
  case (Cons a arts)
  have ld: "fromFilePath env (path a) = Inr (loaded a)" using Cons.prems by simp
  have rp: "sync_throw (outcome env (Reply original (Media (loaded a)))) = None" using Cons.prems by simp
  have rm: "failure (outcome env (RemoveFile (path a))) = None" using Cons.prems by simp
  have tr: "sync_throw (outcome env (TrackEvent ''download_response'' (from_jid (message (data job)))
     (MessageProp (message (data job))))) = None" using tracked by simp
  have rest: "\<And>w'. deliver env job arts w'
     = (Inr (), w'\<lparr>calls := calls w' @ concat (map (delivery original job loaded) arts),
                  unhandled := unhandled w'
                     @ rejected env (concat (map (delivery original job loaded) arts))\<rparr>)"
    using Cons by simp
  have d: "delivery original job loaded a
      = [Reply original (Media (loaded a)), RemoveFile (path a),
         TrackEvent ''download_response'' (from_jid (message (data job))) (MessageProp (message (data job)))]"
    by (simp add: delivery_def)
  show ?case
    by (simp add: resolved ld prog_simps reply_on_def andThen_fire[OF rp] andThen_await_call[OF rm]
        andThen_fire[OF tr] rest d rejected_simps no_failure_no_rejection[OF rm])
qed

lemma deliver_emits:
  assumes resolved: "getMessageById env (serialized (id' (message (data job)))) = Inr (Some original)"
    and loaded: "\<forall>a\<in>set arts. fromFilePath env (path a) = Inr (loaded a)"
    and replied: "\<forall>a\<in>set arts. sync_throw (outcome env (Reply original (Media (loaded a)))) = None"
    and removed: "\<forall>a\<in>set arts. failure (outcome env (RemoveFile (path a))) = None"
    and tracked: "\<forall>n u p. sync_throw (outcome env (TrackEvent n u p)) = None"
  shows "emits (deliver env job arts) w (Inr ()) (concat (map (delivery original job loaded) arts))"
  by (simp add: emits_def deliver_run[OF assms])

lemma andThen_await_call_fails:
  "failure (outcome env ev) = Some e \<Longrightarrow>
   andThen (await_call env ev) f w = (Inl e, w\<lparr>calls := calls w @ [ev]\<rparr>)"
  by (simp add: andThen_def await_call_def Let_def)

lemma deliver_append:
  "deliver env job (pre @ post) = andThen (deliver env job pre) (\<lambda>_. deliver env job post)"
  by (induction pre) (simp_all add: andThen_ret andThen_assoc)

lemma emits_try_catch_Inl:
  "emits m w (Inl e) evs \<Longrightarrow> (\<And>w'. emits (h e) w' r evs') \<Longrightarrow> emits (try_catch m h) w r (evs @ evs')"
  by (cases "m w") (simp add: emits_def try_catch_def)

lemma emits_await_call_fails:
  "failure (outcome env ev) = Some e \<Longrightarrow> emits (await_call env ev) w (Inl e) [ev]"
  by (simp add: emits_def await_call_def Let_def)

lemma emits_log_then_fire:
  "sync_throw (outcome env ev) = None \<Longrightarrow>
   emits (andThen (console_log s x) (\<lambda>_. fire env ev)) w (Inr ()) [ev]"
  by (simp add: emits_def andThen_def console_log_def fire_ok)

lemma deliver_fails_at_load:
  "fromFilePath env (path a) = Inl e \<Longrightarrow> emits (deliver env job (a # rest)) w (Inl e) []"
  by (simp add: prog_simps emits_def raise_apply)

lemma deliver_fails_at_resolution:
  "fromFilePath env (path a) = Inr m \<Longrightarrow>
   getMessageById env (serialized (id' (message (data job)))) = Inl e \<Longrightarrow>
   emits (deliver env job (a # rest)) w (Inl e) []"
  by (simp add: prog_simps emits_def raise_apply)

lemma deliver_fails_at_missing:
  "fromFilePath env (path a) = Inr m \<Longrightarrow>
   getMessageById env (serialized (id' (message (data job)))) = Inr None \<Longrightarrow>
   emits (deliver env job (a # rest)) w (Inl TypeError) []"
  by (simp add: prog_simps emits_def raise_apply reply_on_def)

lemma deliver_fails_at_reply:
  "fromFilePath env (path a) = Inr m \<Longrightarrow>
   getMessageById env (serialized (id' (message (data job)))) = Inr (Some original) \<Longrightarrow>
   sync_throw (outcome env (Reply original (Media m))) = Some e \<Longrightarrow>
   emits (deliver env job (a # rest)) w (Inl e) [Reply original (Media m)]"
  by (simp add: prog_simps emits_def reply_on_def andThen_fire_throws)

lemma deliver_fails_at_removal:
  "fromFilePath env (path a) = Inr m \<Longrightarrow>
   getMessageById env (serialized (id' (message (data job)))) = Inr (Some original) \<Longrightarrow>
   sync_throw (outcome env (Reply original (Media m))) = None \<Longrightarrow>
   failure (outcome env (RemoveFile (path a))) = Some e \<Longrightarrow>
   emits (deliver env job (a # rest)) w (Inl e) [Reply original (Media m), RemoveFile (path a)]"
  by (simp add: prog_simps emits_def reply_on_def andThen_fire andThen_await_call_fails)

lemma on_completed_stops:
  assumes arts: "download (returnvalue job) = pre @ a # rest"
    and pre: "\<And>w. emits (deliver env job pre) w (Inr ()) evs"
    and stop: "\<And>w. emits (deliver env job (a # rest)) w (Inl e) evs'"
    and tracked: "\<forall>n u p. sync_throw (outcome env (TrackEvent n u p)) = None"
  shows "emits (on_completed env job) w (Inr ())
           ((evs @ evs') @ [TrackEvent ''error_onQueueMessage'' [] (ErrorProp e job)])"
proof -
  have tr: "sync_throw (outcome env (TrackEvent ''error_onQueueMessage'' [] (ErrorProp e job))) = None"
    using tracked by simp
  have body: "emits (andThen (andThen (deliver env job pre) (\<lambda>_. deliver env job (a # rest)))
      (\<lambda>_. await_call env (UpdateStatusById (downloadId (returnvalue job)) SENT))) w (Inl e) (evs @ evs')"
    by (rule emits_andThen_Inl[OF emits_andThen[OF pre stop]])
  have handler: "\<And>w'. emits (andThen (console_log ''Error in onQueueMessage:'' (Err e)) (\<lambda>_.
        fire env (TrackEvent ''error_onQueueMessage'' [] (ErrorProp e job)))) w' (Inr ())
        [TrackEvent ''error_onQueueMessage'' [] (ErrorProp e job)]"
    by (rule emits_log_then_fire[OF tr])
  show ?thesis
    unfolding on_completed_def arts deliver_append
    by (rule emits_try_catch_Inl[where h = "\<lambda>e. andThen (console_log ''Error in onQueueMessage:'' (Err e)) (\<lambda>_.
        fire env (TrackEvent ''error_onQueueMessage'' [] (ErrorProp e job)))", OF body handler])
qed

lemma on_completed_run:
  assumes resolved: "getMessageById env (serialized (id' (message (data job)))) = Inr (Some original)"
    and loaded: "\<forall>a\<in>set (download (returnvalue job)). fromFilePath env (path a) = Inr (loaded a)"
    and replied: "\<forall>a\<in>set (download (returnvalue job)). sync_throw (outcome env (Reply original (Media (loaded a)))) = None"
    and removed: "\<forall>a\<in>set (download (returnvalue job)). failure (outcome env (RemoveFile (path a))) = None"
    and tracked: "\<forall>n u p. sync_throw (outcome env (TrackEvent n u p)) = None"
    and updated: "failure (outcome env (UpdateStatusById (downloadId (returnvalue job)) SENT)) = None"
  shows "on_completed env job w
     = (Inr (), w\<lparr>calls := calls w @ concat (map (delivery original job loaded) (download (returnvalue job)))
                       @ [UpdateStatusById (downloadId (returnvalue job)) SENT],
                  unhandled := unhandled w
                     @ rejected env (concat (map (delivery original job loaded) (download (returnvalue job)))
                         @ [UpdateStatusById (downloadId (returnvalue job)) SENT])\<rparr>)"
  by (simp add: on_completed_def try_catch_def
      andThen_Inr[OF deliver_run[OF resolved loaded replied removed tracked]]
      await_call_def Let_def updated rejected_simps no_failure_no_rejection[OF updated])

lemma filter_delivery:
  "filter is_Reply (concat (map (delivery original job loaded) arts))
      = map (\<lambda>a. Reply original (Media (loaded a))) arts"
  "filter is_RemoveFile (concat (map (delivery original job loaded) arts))
      = map (\<lambda>a. RemoveFile (path a)) arts"
  "filter is_UpdateStatusById (concat (map (delivery original job loaded) arts)) = []"
  by (induction arts) (simp_all add: delivery_def is_Reply_def is_RemoveFile_def is_UpdateStatusById_def)

lemma keeps_ready_listeners_on_qr: "keeps ready_listeners (on_qr env qr)"
  unfolding on_qr_def
  by (intro keeps_andThen keeps_await_call keeps_reading keeps_case_option keeps_if keeps_issue
      keeps_await keeps_modify) (simp_all add: ready_listeners_def)

lemma keeps_ready_listeners_on_disconnected: "keeps ready_listeners (on_disconnected env reason)"
  unfolding on_disconnected_def
  by (intro keeps_andThen keeps_console_log keeps_modify keeps_fire) (simp_all add: ready_listeners_def)

lemma keeps_ready_listeners_on_authenticated: "keeps ready_listeners (on_authenticated env)"
  unfolding on_authenticated_def
  by (intro keeps_andThen keeps_modify keeps_fire) (simp_all add: ready_listeners_def)

lemma keeps_ready_listeners_on_auth_failure: "keeps ready_listeners (on_auth_failure env)"
  unfolding on_auth_failure_def
  by (intro keeps_andThen keeps_modify keeps_fire) (simp_all add: ready_listeners_def)

lemma keeps_QrCodeMessageId_on_disconnected: "keeps QrCodeMessageId (on_disconnected env reason)"
  unfolding on_disconnected_def
  by (intro keeps_andThen keeps_console_log keeps_modify keeps_fire) simp_all

lemma on_qr_sends:
  assumes saved: "failure (outcome env (SaveFile (qrCodePath env) qr)) = None"
    and no_prompt: "QrCodeMessageId w = None \<or> QrCodeMessageId w = Some 0"
    and sent: "sendQRcode env (qrCodePath env) = Inr sent"
  shows "on_qr env qr w
     = (Inr (), w\<lparr>QrCodeMessageId := sent,
                  calls := calls w @ [SaveFile (qrCodePath env) qr, SendQRcode (qrCodePath env)]\<rparr>)"
  using no_prompt
  by (auto simp add: on_qr_def andThen_await_call[OF saved] reading_def andThen_issue sent prog_simps
      modify_apply)

lemma first_ready_result:
  assumes armed: "ready_listeners w = [(ClientReady, True)]"
    and no_throw: "\<forall>ev. sync_throw (outcome env ev) = None"
  shows "\<exists>w'. emit env ClientReady w = (Inr (), w')
     \<and> listeners w' = remove1 (ClientReady, True) (listeners w) @ ready_registrations
     \<and> calls w' = calls w @ ready_calls env (QrCodeMessageId w)
     \<and> QrCodeMessageId w'
         = (case QrCodeMessageId w of None \<Rightarrow> None | Some qr \<Rightarrow> if qr = 0 then Some 0 else None)"
proof -
  let ?w0 = "w\<lparr>listeners := remove1 (ClientReady, True) (listeners w)\<rparr>"
  from on_ready_result[OF no_throw, of ?w0]
  obtain w' where w': "on_ready env ?w0 = (Inr (), w')"
    and l: "listeners w' = listeners ?w0 @ ready_registrations"
    and c: "calls w' = calls ?w0 @ ready_calls env (QrCodeMessageId ?w0)"
    and q: "QrCodeMessageId w'
         = (case QrCodeMessageId ?w0 of None \<Rightarrow> None | Some qr \<Rightarrow> if qr = 0 then Some 0 else None)"
    by blast
  have e: "emit env ClientReady w = (Inr (), w')"
    unfolding emit_ready_armed[OF armed] by (simp add: andThen_def w' ret_def)
  show ?thesis
    using e l c q by simp
qed

lemma later_ready_changes_nothing:
  assumes armed: "ready_listeners w = [(ClientReady, True)]"
    and later: "keeps ready_listeners m"
  shows "emit env ClientReady (snd (m (snd (emit env ClientReady w))))
     = (Inr (), snd (m (snd (emit env ClientReady w))))"
proof -
  have "ready_listeners (snd (m (snd (emit env ClientReady w)))) = []"
    using later ready_listeners_after_emit[OF armed, of env] by (simp add: keeps_def)
  then show ?thesis by (rule emit_ready_unarmed)
qed

section \<open>The inbound path\<close>

text \<open>
  C10. The country stored by the user upsert is the sender's formatted number up to, and
  without, its first space; a number without a space is stored whole. The row is the one
  found under the formatted number after the handler has run, whatever the later steps of
  the handler do.
\<close>

theorem country_is_prefix_before_first_space:
  assumes chat: "getChat env msg = Inr chatInfo" "\<not> isGroup chatInfo" "\<not> isReadOnly chatInfo"
    and contact: "getContact env msg = Inr contactInfo"
      "getFormattedNumber env contactInfo = Inr userNumber"
    and upsert: "failure (outcome env (PrismaUserUpsert (userPayload msg contactInfo userNumber))) = None"
  shows "\<exists>u. users (snd (on_message env msg w)) userNumber = Some u
           \<and> country (columns u) = takeWhile (\<lambda>c. c \<noteq> CHR '' '') userNumber
           \<and> (CHR '' '' \<notin> set userNumber \<longrightarrow> country (columns u) = userNumber)"
proof -
  let ?p = "userPayload msg contactInfo userNumber"
  let ?user = "upsert_row env (users w) ?p"
  let ?w1 = "w\<lparr>calls := calls w @ [PrismaUserUpsert ?p], users := (users w)(phone ?p \<mapsto> ?user)\<rparr>"
  have tail: "keeps users (andThen (fire env (IdentifyUser (id' ?user) ?p)) (\<lambda>_.
      andThen (fire env (TrackEvent ''message_received'' (id' ?user)
                    (Received (hasMedia msg) (0 < length (links msg)) (deviceType msg) msg))) (\<lambda>_.
      andThen (sticker_path env msg ?user) (\<lambda>_.
      link_path env msg userNumber ?user))))"
    by (intro keeps_intros keeps_users_sticker keeps_users_link)
  have "users (snd (on_message env msg w)) = users (snd (message_body env msg w))"
    by (simp add: on_message_def users_try_catch_log)
  also have "\<dots> = users ?w1"
    using tail by (simp add: message_body_upto_user[OF assms] Let_def keeps_def)
  finally have u: "users (snd (on_message env msg w)) = (users w)(phone ?p \<mapsto> ?user)"
    by simp
  have ph: "phone ?p = userNumber"
    and co: "country ?p = takeWhile (\<lambda>c. c \<noteq> CHR '' '') userNumber"
    by (simp_all add: userPayload_def split_first)
  show ?thesis
    using u ph co by (auto simp: columns_upsert_row)
qed

theorem country_is_prefix_before_first_space_witness:
  "getFormattedNumber calm_env sender = Inr ''+20 100 200 3000''
   \<and> (\<exists>u. users (snd (on_message calm_env link_message fresh_world)) ''+20 100 200 3000'' = Some u
          \<and> country (columns u) = ''+20'')"
proof -
  have chat: "getChat calm_env link_message = Inr private_chat"
      "\<not> isGroup private_chat" "\<not> isReadOnly private_chat"
    and contact: "getContact calm_env link_message = Inr sender"
      "getFormattedNumber calm_env sender = Inr sender_number"
    and upsert: "failure (outcome calm_env (PrismaUserUpsert (userPayload link_message sender sender_number))) = None"
    by (simp_all add: calm_env_def private_chat_def)
  from country_is_prefix_before_first_space[OF chat contact upsert, of fresh_world] contact(2)
  show ?thesis
    by (simp add: sender_number_def)
qed

text \<open>
  C3, as the claim states it, fails: the download of the media of the message is awaited in
  the same \<^verbatim>\<open>try\<close> block, before the links are handled. A message with a picture and one
  link, from a sender who is not rate-limited, whose media cannot be downloaded, creates no
  download record and submits no queue job.
\<close>

theorem failed_media_download_blocks_the_link:
  "hasMedia picture_link_message
   \<and> links picture_link_message = [\<lparr>link = ''https://example.com/v/2''\<rparr>]
   \<and> isRatedLimited broken_media_env sender_number = Inr False
   \<and> downloadMedia broken_media_env picture_link_message = Inl (Failure ''media expired'')
   \<and> filter is_DownloadsCreate (issued (on_message broken_media_env picture_link_message) fresh_world) = []
   \<and> filter is_AddJob (issued (on_message broken_media_env picture_link_message) fresh_world) = []"
proof -
  have chat: "getChat broken_media_env picture_link_message = Inr private_chat"
      "\<not> isGroup private_chat" "\<not> isReadOnly private_chat"
    and contact: "getContact broken_media_env picture_link_message = Inr sender"
      "getFormattedNumber broken_media_env sender = Inr sender_number"
    and upsert: "failure (outcome broken_media_env (PrismaUserUpsert (userPayload picture_link_message sender sender_number))) = None"
    and no_throw: "\<forall>ev. sync_throw (outcome broken_media_env ev) = None"
    and m: "hasMedia picture_link_message"
    and f: "downloadMedia broken_media_env picture_link_message = Inl (Failure ''media expired'')"
    and l: "links picture_link_message = [\<lparr>link = ''https://example.com/v/2''\<rparr>]"
    and r: "isRatedLimited broken_media_env sender_number = Inr False"
    by (simp_all add: broken_media_env_def calm_env_def private_chat_def picture_link_message_def)
  note body = message_body_emits_sticker_raises[OF chat contact upsert no_throw refl
      sticker_path_emits_fails[OF m f], of fresh_world]
  show ?thesis
    unfolding emits_on_message(1)[OF body]
    using m f l r by (simp add: is_DownloadsCreate_def is_AddJob_def)
qed
text \<open>
  C3, amended. Take an inbound message from a private, writable chat that carries exactly
  one link and whose sender is not rate-limited, and let the chat, the contact, the number
  and the user be resolved and no call throw as it is issued. When the media of the
  message, if it has any, is downloaded and the creation of the download record succeeds,
  the handler creates exactly one download record, with status \<open>UNKNOWN\<close> and the id of the
  resolved user as owner, and submits exactly one queue job, keyed by the timestamp, a dash
  and the sender's number, whose payload holds the link, the id of that record and the
  message. When the download of the media fails, the handler creates no record and submits
  no job, and when the creation of the record fails it submits no job; in both cases it
  prints the exception.
\<close>

theorem single_link_creates_record_and_job:
  assumes chat: "getChat env msg = Inr chatInfo" "\<not> isGroup chatInfo" "\<not> isReadOnly chatInfo"
    and contact: "getContact env msg = Inr contactInfo"
      "getFormattedNumber env contactInfo = Inr userNumber"
    and upsert: "failure (outcome env (PrismaUserUpsert (userPayload msg contactInfo userNumber))) = None"
    and user: "user = upsert_row env (users w) (userPayload msg contactInfo userNumber)"
    and one_link: "links msg = [l]"
    and not_limited: "isRatedLimited env userNumber = Inr False"
    and no_throw: "\<forall>ev. sync_throw (outcome env ev) = None"
  shows "((hasMedia msg \<longrightarrow> downloadMedia env msg = Inr media)
          \<longrightarrow> downloads_create env (link l) UNKNOWN (id' user) (timestamp msg) = Inr stored
          \<longrightarrow> filter is_DownloadsCreate (issued (on_message env msg) w)
                 = [DownloadsCreate (link l) UNKNOWN (id' user) (timestamp msg)]
              \<and> filter is_AddJob (issued (on_message env msg) w)
                 = [AddJobToDownloaderQueue (string_of_nat (timestamp msg) @ ''-'' @ userNumber)
                      \<lparr>downloadId = id' stored, url = link l, message = msg\<rparr>])
       \<and> (hasMedia msg \<longrightarrow> downloadMedia env msg = Inl e
          \<longrightarrow> filter is_DownloadsCreate (issued (on_message env msg) w) = []
              \<and> filter is_AddJob (issued (on_message env msg) w) = []
              \<and> console (snd (on_message env msg w))
                  = console w @ [(''Error in message handler'', Err e)])
       \<and> ((hasMedia msg \<longrightarrow> downloadMedia env msg = Inr media)
          \<longrightarrow> downloads_create env (link l) UNKNOWN (id' user) (timestamp msg) = Inl e
          \<longrightarrow> filter is_AddJob (issued (on_message env msg) w) = []
              \<and> console (snd (on_message env msg w))
                  = console w @ [(''Error in message handler'', Err e)])"
proof (intro conjI impI)
  assume media: "hasMedia msg \<longrightarrow> downloadMedia env msg = Inr media"
    and created: "downloads_create env (link l) UNKNOWN (id' user) (timestamp msg) = Inr stored"
  note body = message_body_emits[OF chat contact upsert no_throw user
      sticker_path_emits[OF media no_throw]
      link_path_emits_job[OF one_link not_limited created no_throw]]
  show "filter is_DownloadsCreate (issued (on_message env msg) w)
                 = [DownloadsCreate (link l) UNKNOWN (id' user) (timestamp msg)]"
    unfolding emits_on_message(1)[OF body]
    by (simp add: is_DownloadsCreate_def sticker_reply_def del: string_of_nat.simps)
  show "filter is_AddJob (issued (on_message env msg) w)
                 = [AddJobToDownloaderQueue (string_of_nat (timestamp msg) @ ''-'' @ userNumber)
                      \<lparr>downloadId = id' stored, url = link l, message = msg\<rparr>]"
    unfolding emits_on_message(1)[OF body]
    by (simp add: is_AddJob_def sticker_reply_def del: string_of_nat.simps)
next
  assume m: "hasMedia msg" and f: "downloadMedia env msg = Inl e"
  note body = message_body_emits_sticker_raises[OF chat contact upsert no_throw user
      sticker_path_emits_fails[OF m f]]
  show "filter is_DownloadsCreate (issued (on_message env msg) w) = []"
    unfolding emits_on_message(1)[OF body] by (simp add: is_DownloadsCreate_def)
  show "filter is_AddJob (issued (on_message env msg) w) = []"
    unfolding emits_on_message(1)[OF body] by (simp add: is_AddJob_def)
  show "console (snd (on_message env msg w)) = console w @ [(''Error in message handler'', Err e)]"
    unfolding emits_on_message(3)[OF body] by simp
next
  assume media: "hasMedia msg \<longrightarrow> downloadMedia env msg = Inr media"
    and failed: "downloads_create env (link l) UNKNOWN (id' user) (timestamp msg) = Inl e"
  note body = message_body_emits[OF chat contact upsert no_throw user
      sticker_path_emits[OF media no_throw]
      link_path_fails_at_create[OF one_link not_limited failed]]
  show "filter is_AddJob (issued (on_message env msg) w) = []"
    unfolding emits_on_message(1)[OF body] by (simp add: is_AddJob_def sticker_reply_def)
  show "console (snd (on_message env msg w)) = console w @ [(''Error in message handler'', Err e)]"
    unfolding emits_on_message(3)[OF body] by simp
qed

theorem single_link_creates_record_and_job_witness:
  "links link_message = [\<lparr>link = ''https://example.com/v/1''\<rparr>]
   \<and> isRatedLimited calm_env sender_number = Inr False
   \<and> filter is_DownloadsCreate (issued (on_message calm_env link_message) fresh_world)
        = [DownloadsCreate ''https://example.com/v/1'' UNKNOWN ''user-1'' 42]
   \<and> filter is_AddJob (issued (on_message calm_env link_message) fresh_world)
        = [AddJobToDownloaderQueue ''42-+20 100 200 3000''
             \<lparr>downloadId = ''download-1'', url = ''https://example.com/v/1'',
              message = link_message\<rparr>]"
proof -
  have chat: "getChat calm_env link_message = Inr private_chat"
      "\<not> isGroup private_chat" "\<not> isReadOnly private_chat"
    and contact: "getContact calm_env link_message = Inr sender"
      "getFormattedNumber calm_env sender = Inr sender_number"
    and upsert: "failure (outcome calm_env (PrismaUserUpsert (userPayload link_message sender sender_number))) = None"
    and media: "hasMedia link_message \<longrightarrow> downloadMedia calm_env link_message = Inr picture"
    and one_link: "links link_message = [\<lparr>link = ''https://example.com/v/1''\<rparr>]"
    and not_limited: "isRatedLimited calm_env sender_number = Inr False"
    and no_throw: "\<forall>ev. sync_throw (outcome calm_env ev) = None"
    by (simp_all add: calm_env_def private_chat_def link_message_def)
  have user: "sender_row = upsert_row calm_env (users fresh_world) (userPayload link_message sender sender_number)"
    by (simp add: sender_row_def upsert_row_def fresh_world_def userPayload_def calm_env_def
        sender_number_def sender_def link_message_def)
  have created: "downloads_create calm_env (link \<lparr>link = ''https://example.com/v/1''\<rparr>) UNKNOWN
      (id' sender_row) (timestamp link_message) = Inr \<lparr>id' = ''download-1''\<rparr>"
    by (simp add: calm_env_def)
  have key: "string_of_nat (timestamp link_message) @ ''-'' @ sender_number = ''42-+20 100 200 3000''"
    by (simp add: link_message_def sender_number_def digit_char_def)
  from single_link_creates_record_and_job[OF chat contact upsert user one_link not_limited no_throw,
      where media = picture and stored = "\<lparr>id' = ''download-1''\<rparr>"] media created
  have "filter is_DownloadsCreate (issued (on_message calm_env link_message) fresh_world)
                 = [DownloadsCreate (link \<lparr>link = ''https://example.com/v/1''\<rparr>) UNKNOWN
                      (id' sender_row) (timestamp link_message)]
      \<and> filter is_AddJob (issued (on_message calm_env link_message) fresh_world)
                 = [AddJobToDownloaderQueue (string_of_nat (timestamp link_message) @ ''-'' @ sender_number)
                      \<lparr>downloadId = id' \<lparr>id' = ''download-1''\<rparr>,
                       url = link \<lparr>link = ''https://example.com/v/1''\<rparr>, message = link_message\<rparr>]"
    by blast
  then show ?thesis
    using one_link not_limited unfolding key
    by (simp add: sender_row_def del: string_of_nat.simps) (simp add: link_message_def)
qed

text \<open>
  C4, as the claim states it, fails: the persisted state does not stay unchanged, because
  the sender is inserted or updated in the user table before the rate limit is looked at.
\<close>

theorem rate_limited_request_upserts_the_user:
  "links link_message \<noteq> []
   \<and> isRatedLimited limiting_env sender_number = Inr True
   \<and> users fresh_world sender_number = None
   \<and> users (snd (on_message limiting_env link_message fresh_world)) sender_number = Some sender_row"
proof -
  have chat: "getChat limiting_env link_message = Inr private_chat"
      "\<not> isGroup private_chat" "\<not> isReadOnly private_chat"
    and contact: "getContact limiting_env link_message = Inr sender"
      "getFormattedNumber limiting_env sender = Inr sender_number"
    and upsert: "failure (outcome limiting_env (PrismaUserUpsert (userPayload link_message sender sender_number))) = None"
    and has_links: "links link_message \<noteq> []"
    and limited: "isRatedLimited limiting_env sender_number = Inr True"
    by (simp_all add: limiting_env_def calm_env_def private_chat_def link_message_def)
  have user: "upsert_row limiting_env (users fresh_world) (userPayload link_message sender sender_number) = sender_row"
    by (simp add: sender_row_def upsert_row_def fresh_world_def userPayload_def limiting_env_def
        calm_env_def sender_number_def sender_def link_message_def)
  have "users fresh_world sender_number = None"
    by (simp add: fresh_world_def)
  then show ?thesis
    using has_links limited
    by (simp add: users_after_message[OF chat contact upsert] user)
qed
text \<open>
  C4, amended. When the message carries links and the rate limiter reports the sender as
  limited (the chat, the contact, the number and the user being resolved, the media of the
  message, if any, being downloaded, and no call throwing as it is issued), the handler
  issues exactly these calls: the upsert of the user, the identification of the user and
  the event \<open>message_received\<close>, the three calls of the sticker path if the message carries
  a JPEG or PNG picture, the event \<open>rate_limited\<close>, and last the fixed notice as a reply to
  the message. It creates no download record and submits no queue job. The user table is
  changed: it holds the row of the sender afterwards.
\<close>

theorem rate_limited_sender_gets_notice_only:
  assumes chat: "getChat env msg = Inr chatInfo" "\<not> isGroup chatInfo" "\<not> isReadOnly chatInfo"
    and contact: "getContact env msg = Inr contactInfo"
      "getFormattedNumber env contactInfo = Inr userNumber"
    and upsert: "failure (outcome env (PrismaUserUpsert (userPayload msg contactInfo userNumber))) = None"
    and user: "user = upsert_row env (users w) (userPayload msg contactInfo userNumber)"
    and media: "hasMedia msg \<longrightarrow> downloadMedia env msg = Inr media"
    and has_links: "links msg \<noteq> []"
    and limited: "isRatedLimited env userNumber = Inr True"
    and no_throw: "\<forall>ev. sync_throw (outcome env ev) = None"
  shows "issued (on_message env msg) w
           = [PrismaUserUpsert (userPayload msg contactInfo userNumber),
              IdentifyUser (id' user) (userPayload msg contactInfo userNumber),
              TrackEvent ''message_received'' (id' user)
                (Received (hasMedia msg) (0 < length (links msg)) (deviceType msg) msg)]
             @ sticker_calls msg (id' user) media
             @ [TrackEvent ''rate_limited'' (id' user) NoProps,
                Reply msg (Text rate_limit_notice)]
       \<and> filter is_DownloadsCreate (issued (on_message env msg) w) = []
       \<and> filter is_AddJob (issued (on_message env msg) w) = []
       \<and> users (snd (on_message env msg w)) = (users w)(userNumber \<mapsto> user)"
proof -
  note body = message_body_emits[OF chat contact upsert no_throw user
      sticker_path_emits[OF media no_throw]
      link_path_emits_limited[OF has_links limited no_throw]]
  have i: "issued (on_message env msg) w
           = [PrismaUserUpsert (userPayload msg contactInfo userNumber),
              IdentifyUser (id' user) (userPayload msg contactInfo userNumber),
              TrackEvent ''message_received'' (id' user)
                (Received (hasMedia msg) (0 < length (links msg)) (deviceType msg) msg)]
             @ sticker_calls msg (id' user) media
             @ [TrackEvent ''rate_limited'' (id' user) NoProps,
                Reply msg (Text rate_limit_notice)]"
    unfolding emits_on_message(1)[OF body] by (simp add: sticker_calls_def)
  have u: "users (snd (on_message env msg w)) = (users w)(userNumber \<mapsto> user)"
    unfolding user by (rule users_after_message[OF chat contact upsert])
  show ?thesis
    unfolding i using u
    by (simp add: is_DownloadsCreate_def is_AddJob_def sticker_calls_def sticker_reply_def)
qed
theorem rate_limited_sender_gets_notice_only_witness:
  "links link_message \<noteq> []
   \<and> isRatedLimited limiting_env sender_number = Inr True
   \<and> issued (on_message limiting_env link_message) fresh_world
       = [PrismaUserUpsert (columns sender_row), IdentifyUser ''user-1'' (columns sender_row),
          TrackEvent ''message_received'' ''user-1'' (Received False True ''android'' link_message),
          TrackEvent ''rate_limited'' ''user-1'' NoProps,
          Reply link_message (Text rate_limit_notice)]
   \<and> filter is_DownloadsCreate (issued (on_message limiting_env link_message) fresh_world) = []
   \<and> filter is_AddJob (issued (on_message limiting_env link_message) fresh_world) = []"
proof -
  have chat: "getChat limiting_env link_message = Inr private_chat"
      "\<not> isGroup private_chat" "\<not> isReadOnly private_chat"
    and contact: "getContact limiting_env link_message = Inr sender"
      "getFormattedNumber limiting_env sender = Inr sender_number"
    and upsert: "failure (outcome limiting_env (PrismaUserUpsert (userPayload link_message sender sender_number))) = None"
    and media: "hasMedia link_message \<longrightarrow> downloadMedia limiting_env link_message = Inr picture"
    and has_links: "links link_message \<noteq> []"
    and limited: "isRatedLimited limiting_env sender_number = Inr True"
    and no_throw: "\<forall>ev. sync_throw (outcome limiting_env ev) = None"
    by (simp_all add: limiting_env_def calm_env_def private_chat_def link_message_def)
  have user: "sender_row = upsert_row limiting_env (users fresh_world) (userPayload link_message sender sender_number)"
    by (simp add: sender_row_def upsert_row_def fresh_world_def userPayload_def limiting_env_def
        calm_env_def sender_number_def sender_def link_message_def)
  have p: "userPayload link_message sender sender_number = columns sender_row"
    by (simp add: sender_row_def userPayload_def sender_number_def sender_def link_message_def)
  have m: "hasMedia link_message = False" "deviceType link_message = ''android''"
      "id' sender_row = ''user-1''"
    by (simp_all add: link_message_def sender_row_def)
  from rate_limited_sender_gets_notice_only[OF chat contact upsert user media has_links limited
      no_throw]
  show ?thesis
    using has_links limited unfolding p
    by (simp add: sticker_calls_def m is_DownloadsCreate_def is_AddJob_def)
qed



text \<open>
  C8, as the claim states it, fails: the handler does not wait for the promises of its
  replies, of the sticker record, of the telemetry calls and of the queue submission, so a
  rejection of one of them is neither caught nor logged by the handler. Here the reply
  with the sticker is rejected.
\<close>

theorem floating_rejection_is_not_caught:
  "outcome dropping_env (Reply picture_message (sticker_reply picture)) = Rejects (Failure ''Evaluation failed'')
   \<and> unhandled (snd (on_message dropping_env picture_message fresh_world)) = [Failure ''Evaluation failed'']
   \<and> console (snd (on_message dropping_env picture_message fresh_world)) = []"
  by (simp add: on_message_def try_catch_def message_body_def andThen_def await_def ret_def raise_def
      createOrUpdateUser_def await_call_def fire_def sticker_path_def link_path_def Let_def
      dropping_env_def calm_env_def picture_message_def fresh_world_def private_chat_def
      sticker_reply_def picture_def console_log_def)

text \<open>
  C8, amended. The message handler always completes normally, and it prints one line, with
  the exception, exactly when its body raises one. Each awaited step that fails is caught
  and printed once: the resolution of the chat, of the contact and of the number, the
  upsert of the user, the download of the media, the rate limit check and the creation of
  the download record (for the last three, with no call throwing as it is issued). So is
  an exception that one of the issued calls throws as it is issued. The promises of the
  floating calls (the identification, the telemetry events, the sticker record, the
  replies and the queue submission) are not awaited: their rejections are not caught and
  not printed, they are exactly what the handler leaves unhandled. When every collaborator
  answers and no call throws, the handler prints nothing.
\<close>

theorem message_handler_catches_what_reaches_its_try:
  "fst (on_message env msg w) = Inr ()
   \<and> console (snd (on_message env msg w))
       = console w @ (case fst (message_body env msg w) of
                        Inl e \<Rightarrow> [(''Error in message handler'', Err e)]
                      | Inr _ \<Rightarrow> [])
   \<and> (getChat env msg = Inl e \<longrightarrow> logged_once env msg w e)
   \<and> (getChat env msg = Inr chatInfo \<and> \<not> isGroup chatInfo \<and> \<not> isReadOnly chatInfo
        \<longrightarrow> (getContact env msg = Inl e \<longrightarrow> logged_once env msg w e)
          \<and> (getContact env msg = Inr contactInfo
               \<longrightarrow> (getFormattedNumber env contactInfo = Inl e \<longrightarrow> logged_once env msg w e)
                 \<and> (getFormattedNumber env contactInfo = Inr userNumber
                      \<longrightarrow> (failure (outcome env (PrismaUserUpsert (userPayload msg contactInfo userNumber))) = Some e
                            \<longrightarrow> logged_once env msg w e)
                        \<and> (failure (outcome env (PrismaUserUpsert (userPayload msg contactInfo userNumber))) = None
                             \<and> (\<forall>ev. sync_throw (outcome env ev) = None)
                             \<longrightarrow> (hasMedia msg \<and> downloadMedia env msg = Inl e \<longrightarrow> logged_once env msg w e)
                               \<and> ((hasMedia msg \<longrightarrow> downloadMedia env msg = Inr media)
                                    \<longrightarrow> (links msg \<noteq> [] \<and> isRatedLimited env userNumber = Inl e
                                          \<longrightarrow> logged_once env msg w e)
                                      \<and> (links msg = l # ls \<and> isRatedLimited env userNumber = Inr False
                                           \<and> downloads_create env (link l) UNKNOWN
                                                (id' (upsert_row env (users w) (userPayload msg contactInfo userNumber)))
                                                (timestamp msg) = Inl e
                                          \<longrightarrow> logged_once env msg w e))))))
   \<and> (\<forall>ev\<in>set (issued (on_message env msg) w). raised_by env ev = Some e \<longrightarrow> logged_once env msg w e)
   \<and> unhandled (snd (on_message env msg w))
       = unhandled w @ escapes env (issued (on_message env msg) w)
   \<and> (answers env \<longrightarrow> console (snd (on_message env msg w)) = console w)"
proof (intro conjI impI ballI; (elim conjE)?)
  show "fst (on_message env msg w) = Inr ()" by (rule on_message_returns)
  show "console (snd (on_message env msg w))
       = console w @ (case fst (message_body env msg w) of
                        Inl e \<Rightarrow> [(''Error in message handler'', Err e)]
                      | Inr _ \<Rightarrow> [])" by (rule console_on_message)
  show "unhandled (snd (on_message env msg w))
       = unhandled w @ escapes env (issued (on_message env msg) w)" by (rule unhandled_on_message)
next
  assume "getChat env msg = Inl e"
  then show "logged_once env msg w e" by (rule logged_onceI[OF body_fails_at_chat])
next
  assume "getChat env msg = Inr chatInfo" "\<not> isGroup chatInfo" "\<not> isReadOnly chatInfo"
    "getContact env msg = Inl e"
  then show "logged_once env msg w e" by (rule logged_onceI[OF body_fails_at_contact])
next
  assume "getChat env msg = Inr chatInfo" "\<not> isGroup chatInfo" "\<not> isReadOnly chatInfo"
    "getContact env msg = Inr contactInfo" "getFormattedNumber env contactInfo = Inl e"
  then show "logged_once env msg w e" by (rule logged_onceI[OF body_fails_at_number])
next
  assume "getChat env msg = Inr chatInfo" "\<not> isGroup chatInfo" "\<not> isReadOnly chatInfo"
    "getContact env msg = Inr contactInfo" "getFormattedNumber env contactInfo = Inr userNumber"
    "failure (outcome env (PrismaUserUpsert (userPayload msg contactInfo userNumber))) = Some e"
  then show "logged_once env msg w e" by (rule logged_onceI[OF body_fails_at_upsert])
next
  assume chat: "getChat env msg = Inr chatInfo" "\<not> isGroup chatInfo" "\<not> isReadOnly chatInfo"
    and contact: "getContact env msg = Inr contactInfo" "getFormattedNumber env contactInfo = Inr userNumber"
    and upsert: "failure (outcome env (PrismaUserUpsert (userPayload msg contactInfo userNumber))) = None"
    and no_throw: "\<forall>ev. sync_throw (outcome env ev) = None"
    and m: "hasMedia msg" "downloadMedia env msg = Inl e"
  show "logged_once env msg w e"
    by (rule logged_onceI[OF message_body_emits_sticker_raises[OF chat contact upsert no_throw refl
          sticker_path_emits_fails[OF m]]])
next
  assume chat: "getChat env msg = Inr chatInfo" "\<not> isGroup chatInfo" "\<not> isReadOnly chatInfo"
    and contact: "getContact env msg = Inr contactInfo" "getFormattedNumber env contactInfo = Inr userNumber"
    and upsert: "failure (outcome env (PrismaUserUpsert (userPayload msg contactInfo userNumber))) = None"
    and no_throw: "\<forall>ev. sync_throw (outcome env ev) = None"
    and media: "hasMedia msg \<longrightarrow> downloadMedia env msg = Inr media"
    and l: "links msg \<noteq> []" "isRatedLimited env userNumber = Inl e"
  show "logged_once env msg w e"
    by (rule logged_onceI[OF message_body_emits[OF chat contact upsert no_throw refl
          sticker_path_emits[OF media no_throw] link_path_fails_at_limiter[OF l]]])
next
  assume chat: "getChat env msg = Inr chatInfo" "\<not> isGroup chatInfo" "\<not> isReadOnly chatInfo"
    and contact: "getContact env msg = Inr contactInfo" "getFormattedNumber env contactInfo = Inr userNumber"
    and upsert: "failure (outcome env (PrismaUserUpsert (userPayload msg contactInfo userNumber))) = None"
    and no_throw: "\<forall>ev. sync_throw (outcome env ev) = None"
    and media: "hasMedia msg \<longrightarrow> downloadMedia env msg = Inr media"
    and l: "links msg = l # ls" "isRatedLimited env userNumber = Inr False"
      "downloads_create env (link l) UNKNOWN
          (id' (upsert_row env (users w) (userPayload msg contactInfo userNumber)))
          (timestamp msg) = Inl e"
  show "logged_once env msg w e"
    by (rule logged_onceI[OF message_body_emits[OF chat contact upsert no_throw refl
          sticker_path_emits[OF media no_throw] link_path_fails_at_create[OF l]]])
next
  fix ev assume "ev \<in> set (issued (on_message env msg) w)" "raised_by env ev = Some e"
  then show "logged_once env msg w e" by (rule thrown_on_message)
next
  assume "answers env"
  from succeeds_message_body[OF this, of msg]
  obtain x where "fst (message_body env msg w) = Inr x" unfolding succeeds_def by blast
  then show "console (snd (on_message env msg w)) = console w"
    by (simp add: console_on_message)
qed

theorem message_handler_catches_what_reaches_its_try_witness:
  "getChat failing_env link_message = Inr private_chat
   \<and> \<not> isGroup private_chat \<and> \<not> isReadOnly private_chat
   \<and> getContact failing_env link_message = Inr sender
   \<and> getFormattedNumber failing_env sender = Inr sender_number
   \<and> failure (outcome failing_env (PrismaUserUpsert (userPayload link_message sender sender_number))) = None
   \<and> (\<forall>ev. sync_throw (outcome failing_env ev) = None)
   \<and> \<not> hasMedia link_message
   \<and> links link_message \<noteq> []
   \<and> isRatedLimited failing_env sender_number = Inl (Failure ''limiter unreachable'')
   \<and> fst (on_message failing_env link_message fresh_world) = Inr ()
   \<and> console (snd (on_message failing_env link_message fresh_world))
        = [(''Error in message handler'', Err (Failure ''limiter unreachable''))]
   \<and> Reply picture_message (sticker_reply picture)
        \<in> set (issued (on_message throwing_reply_env picture_message) fresh_world)
   \<and> raised_by throwing_reply_env (Reply picture_message (sticker_reply picture))
        = Some (Failure ''Session closed'')
   \<and> console (snd (on_message throwing_reply_env picture_message fresh_world))
        = [(''Error in message handler'', Err (Failure ''Session closed''))]
   \<and> answers calm_env
   \<and> console (snd (on_message calm_env link_message fresh_world)) = []"
proof -
  have chat: "getChat failing_env link_message = Inr private_chat
      \<and> \<not> isGroup private_chat \<and> \<not> isReadOnly private_chat"
    by (simp add: failing_env_def calm_env_def private_chat_def)
  have contact: "getContact failing_env link_message = Inr sender
      \<and> getFormattedNumber failing_env sender = Inr sender_number"
    by (simp add: failing_env_def calm_env_def)
  have calls: "failure (outcome failing_env (PrismaUserUpsert (userPayload link_message sender sender_number))) = None
      \<and> (\<forall>ev. sync_throw (outcome failing_env ev) = None)"
    by (simp add: failing_env_def calm_env_def)
  have no_media: "\<not> hasMedia link_message"
    by (simp add: link_message_def)
  then have media: "hasMedia link_message \<longrightarrow> downloadMedia failing_env link_message = Inr picture"
    by simp
  have limiter: "links link_message \<noteq> []
      \<and> isRatedLimited failing_env sender_number = Inl (Failure ''limiter unreachable'')"
    by (simp add: failing_env_def calm_env_def link_message_def)
  have issued: "Reply picture_message (sticker_reply picture)
        \<in> set (issued (on_message throwing_reply_env picture_message) fresh_world)"
    by (simp add: issued_def on_message_def try_catch_def message_body_def andThen_def await_def
      ret_def raise_def createOrUpdateUser_def await_call_def fire_def sticker_path_def
      link_path_def Let_def throwing_reply_env_def calm_env_def picture_message_def
      fresh_world_def private_chat_def sticker_reply_def picture_def console_log_def)
  have thrown: "raised_by throwing_reply_env (Reply picture_message (sticker_reply picture))
        = Some (Failure ''Session closed'')"
    by (simp add: raised_by_def throwing_reply_env_def sticker_reply_def)
  have calm: "answers calm_env"
    by (auto simp add: answers_def calm_env_def raised_by_def split: event.splits)
  note at_limiter = message_handler_catches_what_reaches_its_try
      [of failing_env link_message fresh_world "Failure ''limiter unreachable''" private_chat
          sender sender_number picture]
  note at_reply = message_handler_catches_what_reaches_its_try
      [of throwing_reply_env picture_message fresh_world "Failure ''Session closed''"]
  note at_calm = message_handler_catches_what_reaches_its_try [of calm_env link_message fresh_world]
  have a: "fst (on_message failing_env link_message fresh_world) = Inr ()"
    using at_limiter by blast
  have b: "logged_once failing_env link_message fresh_world (Failure ''limiter unreachable'')"
    using at_limiter chat contact calls media limiter by blast
  have c: "logged_once throwing_reply_env picture_message fresh_world (Failure ''Session closed'')"
    using at_reply issued thrown by blast
  have d: "console (snd (on_message calm_env link_message fresh_world)) = console fresh_world"
    using at_calm calm by blast
  show ?thesis
    using chat contact calls no_media limiter issued thrown calm a
      b[unfolded logged_once_def] c[unfolded logged_once_def] d
    by (simp add: fresh_world_def)
qed

section \<open>The failure path\<close>

text \<open>
  C2, as the claim states it, fails: the reply and the creation of the Error record are in
  one \<^verbatim>\<open>try\<close> block, so when the reply throws the record is not created, and when the
  original message cannot be resolved again neither a reply nor a record is issued.
\<close>

theorem throwing_reply_skips_error_record:
  "issued (on_failed throwing_reply_env failed_job (Failure ''timeout'')) fresh_world
      = [Reply link_message (Text apology)]
   \<and> issued (on_failed forgetful_env failed_job (Failure ''timeout'')) fresh_world = []"
  by (simp add: issued_def on_failed_def try_catch_def andThen_def await_def ret_def raise_def
      reply_on_def fire_def Let_def throwing_reply_env_def forgetful_env_def calm_env_def
      failed_job_def fresh_world_def)

text \<open>
  C2, amended. The handler of a failed job always completes normally. When the original
  message is resolved again and the reply call returns, the handler issues exactly the
  apology, as a reply to the resolved message, and then the creation of one Error record
  holding the string of the failure and the id of the download record; this holds as well
  when the promise of the reply is rejected later. When the reply call throws, the handler
  issues the reply and no Error record. When the original message is not found, or its
  resolution fails, the handler issues neither a reply nor an Error record.
\<close>

theorem failed_job_reply_then_error_record:
  "fst (on_failed env job err w) = Inr ()
   \<and> (getMessageById env (serialized (id' (message (data job)))) = Inr (Some original)
        \<longrightarrow> sync_throw (outcome env (Reply original (Text apology))) = None
        \<longrightarrow> issued (on_failed env job err) w
             = [Reply original (Text apology),
                CreateError (error_toString err) (downloadId (data job))])
   \<and> (getMessageById env (serialized (id' (message (data job)))) = Inr (Some original)
        \<longrightarrow> sync_throw (outcome env (Reply original (Text apology))) = Some e
        \<longrightarrow> issued (on_failed env job err) w = [Reply original (Text apology)])
   \<and> (getMessageById env (serialized (id' (message (data job)))) = Inr None
        \<longrightarrow> issued (on_failed env job err) w = [])
   \<and> (getMessageById env (serialized (id' (message (data job)))) = Inl e
        \<longrightarrow> issued (on_failed env job err) w = [])"
proof (intro conjI impI)
  show "fst (on_failed env job err w) = Inr ()"
    by (simp add: on_failed_def try_catch_swallow)
next
  assume "getMessageById env (serialized (id' (message (data job)))) = Inr (Some original)"
    and "sync_throw (outcome env (Reply original (Text apology))) = None"
  then show "issued (on_failed env job err) w
             = [Reply original (Text apology),
                CreateError (error_toString err) (downloadId (data job))]"
    unfolding on_failed_def issued_try_catch_swallow
    by (simp add: issued_def prog_simps reply_on_def andThen_fire calls_fire)
next
  assume "getMessageById env (serialized (id' (message (data job)))) = Inr (Some original)"
    and "sync_throw (outcome env (Reply original (Text apology))) = Some e"
  then show "issued (on_failed env job err) w = [Reply original (Text apology)]"
    unfolding on_failed_def issued_try_catch_swallow
    by (simp add: issued_def prog_simps reply_on_def andThen_fire_throws)
next
  assume "getMessageById env (serialized (id' (message (data job)))) = Inr None"
  then show "issued (on_failed env job err) w = []"
    unfolding on_failed_def issued_try_catch_swallow
    by (simp add: issued_def prog_simps reply_on_def raise_apply)
next
  assume "getMessageById env (serialized (id' (message (data job)))) = Inl e"
  then show "issued (on_failed env job err) w = []"
    unfolding on_failed_def issued_try_catch_swallow
    by (simp add: issued_def prog_simps raise_apply)
qed
theorem failed_job_reply_then_error_record_witness:
  "outcome rejecting_reply_env (Reply link_message (Text apology)) = Rejects (Failure ''Session closed'')
   \<and> issued (on_failed rejecting_reply_env failed_job (Failure ''timeout'')) fresh_world
      = [Reply link_message (Text apology), CreateError ''Error: timeout'' ''download-1'']
   \<and> getMessageById forgetful_env (serialized (id' (message (data failed_job)))) = Inr None
   \<and> issued (on_failed forgetful_env failed_job (Failure ''timeout'')) fresh_world = []"
proof -
  have resolved: "getMessageById rejecting_reply_env (serialized (id' (message (data failed_job))))
      = Inr (Some link_message)"
    and reply_returns: "sync_throw (outcome rejecting_reply_env (Reply link_message (Text apology))) = None"
    and lost: "getMessageById forgetful_env (serialized (id' (message (data failed_job)))) = Inr None"
    by (simp_all add: rejecting_reply_env_def forgetful_env_def calm_env_def)
  from failed_job_reply_then_error_record[of rejecting_reply_env failed_job "Failure ''timeout''"
      fresh_world link_message]
    failed_job_reply_then_error_record[of forgetful_env failed_job "Failure ''timeout''" fresh_world]
    resolved reply_returns lost
  show ?thesis
    by (simp add: failed_job_def rejecting_reply_env_def)
qed

section \<open>The completion path\<close>

text \<open>
  C5, as the claim states it, fails. When the removal of the first of two files fails, the
  handler has issued one reply and does not set the status to \<open>SENT\<close>. And the replies are
  not awaited: when both replies are rejected, the status is set to \<open>SENT\<close> all the same.
\<close>

theorem completed_job_may_stop_early_or_go_undelivered:
  "length (download (returnvalue completed_job)) = 2
   \<and> issued (on_completed locked_file_env completed_job) fresh_world
       = [Reply link_message (Media picture), RemoveFile ''downloads/1.mp4'',
          TrackEvent ''error_onQueueMessage'' []
            (ErrorProp (Failure ''EBUSY: resource busy or locked'') completed_job)]
   \<and> outcome rejecting_reply_env (Reply link_message (Media picture)) = Rejects (Failure ''Session closed'')
   \<and> issued (on_completed rejecting_reply_env completed_job) fresh_world
       = [Reply link_message (Media picture), RemoveFile ''downloads/1.mp4'',
          TrackEvent ''download_response'' ''201002003000@c.us'' (MessageProp link_message),
          Reply link_message (Media picture), RemoveFile ''downloads/2.jpg'',
          TrackEvent ''download_response'' ''201002003000@c.us'' (MessageProp link_message),
          UpdateStatusById ''download-1'' SENT]
   \<and> unhandled (snd (on_completed rejecting_reply_env completed_job fresh_world))
       = [Failure ''Session closed'', Failure ''Session closed'']"
  by (simp add: issued_def on_completed_def try_catch_def andThen_def await_def ret_def raise_def
      reply_on_def fire_def await_call_def console_log_def Let_def
      locked_file_env_def rejecting_reply_env_def calm_env_def completed_job_def
      fresh_world_def link_message_def)

text \<open>
  C5, amended. Let the artifacts of a completed job be \<open>pre\<close> followed by \<open>post\<close>, let each
  file of \<open>pre\<close> be loaded and removed and its reply call return, and let no telemetry call
  throw. When the original message is resolved again by its serialized id:
  if \<open>post\<close> is empty and the update succeeds, the handler replies once for each of the
  \<open>k\<close> artifacts, to the resolved message and with the media loaded from the artifact,
  removes the \<open>k\<close> files, and then sets the status of the download record of the result to
  \<open>SENT\<close>, once and as its last call; the replies are issued before the update but not
  awaited, and the rejections of the calls are left unhandled. If the update fails, the
  handler reports the error after it. If the loading of the first artifact of \<open>post\<close>
  fails, or its reply call throws, or its removal fails, the handler stops there, reports
  the error, and does not set the status to \<open>SENT\<close>. When the original message is not found
  or its resolution fails at the first artifact, the handler only reports the error.
\<close>

theorem completed_job_delivers_each_artifact_then_marks_sent:
  assumes arts: "download (returnvalue job) = pre @ post"
    and loaded: "\<forall>a\<in>set pre. fromFilePath env (path a) = Inr (loaded a)"
    and replied: "\<forall>a\<in>set pre. sync_throw (outcome env (Reply original (Media (loaded a)))) = None"
    and removed: "\<forall>a\<in>set pre. failure (outcome env (RemoveFile (path a))) = None"
    and tracked: "\<forall>n u p. sync_throw (outcome env (TrackEvent n u p)) = None"
  shows "(getMessageById env (serialized (id' (message (data job)))) = Inr (Some original) \<longrightarrow>
            (post = [] \<and> failure (outcome env (UpdateStatusById (downloadId (returnvalue job)) SENT)) = None
               \<longrightarrow> issued (on_completed env job) w
                     = concat (map (delivery original job loaded) pre)
                       @ [UpdateStatusById (downloadId (returnvalue job)) SENT]
                 \<and> filter is_Reply (issued (on_completed env job) w)
                     = map (\<lambda>a. Reply original (Media (loaded a))) (download (returnvalue job))
                 \<and> filter is_RemoveFile (issued (on_completed env job) w)
                     = map (\<lambda>a. RemoveFile (path a)) (download (returnvalue job))
                 \<and> filter is_UpdateStatusById (issued (on_completed env job) w)
                     = [UpdateStatusById (downloadId (returnvalue job)) SENT]
                 \<and> unhandled (snd (on_completed env job w))
                     = unhandled w @ rejected env (issued (on_completed env job) w))
          \<and> (post = [] \<and> failure (outcome env (UpdateStatusById (downloadId (returnvalue job)) SENT)) = Some e
               \<longrightarrow> issued (on_completed env job) w
                     = concat (map (delivery original job loaded) pre)
                       @ [UpdateStatusById (downloadId (returnvalue job)) SENT,
                          TrackEvent ''error_onQueueMessage'' [] (ErrorProp e job)])
          \<and> (post = a # rest \<and> fromFilePath env (path a) = Inl e
               \<longrightarrow> issued (on_completed env job) w
                     = concat (map (delivery original job loaded) pre)
                       @ [TrackEvent ''error_onQueueMessage'' [] (ErrorProp e job)]
                 \<and> filter is_UpdateStatusById (issued (on_completed env job) w) = [])
          \<and> (post = a # rest \<and> fromFilePath env (path a) = Inr m
                \<and> sync_throw (outcome env (Reply original (Media m))) = Some e
               \<longrightarrow> issued (on_completed env job) w
                     = concat (map (delivery original job loaded) pre)
                       @ [Reply original (Media m),
                          TrackEvent ''error_onQueueMessage'' [] (ErrorProp e job)]
                 \<and> filter is_UpdateStatusById (issued (on_completed env job) w) = [])
          \<and> (post = a # rest \<and> fromFilePath env (path a) = Inr m
                \<and> sync_throw (outcome env (Reply original (Media m))) = None
                \<and> failure (outcome env (RemoveFile (path a))) = Some e
               \<longrightarrow> issued (on_completed env job) w
                     = concat (map (delivery original job loaded) pre)
                       @ [Reply original (Media m), RemoveFile (path a),
                          TrackEvent ''error_onQueueMessage'' [] (ErrorProp e job)]
                 \<and> filter is_UpdateStatusById (issued (on_completed env job) w) = []))
       \<and> (pre = [] \<and> post = a # rest \<and> fromFilePath env (path a) = Inr m
            \<longrightarrow> (getMessageById env (serialized (id' (message (data job)))) = Inr None
                   \<longrightarrow> issued (on_completed env job) w
                         = [TrackEvent ''error_onQueueMessage'' [] (ErrorProp TypeError job)])
              \<and> (getMessageById env (serialized (id' (message (data job)))) = Inl e
                   \<longrightarrow> issued (on_completed env job) w
                         = [TrackEvent ''error_onQueueMessage'' [] (ErrorProp e job)]))"
proof -
  let ?upd = "UpdateStatusById (downloadId (returnvalue job)) SENT"
  let ?D = "concat (map (delivery original job loaded) pre)"
  let ?err = "\<lambda>e. TrackEvent ''error_onQueueMessage'' [] (ErrorProp e job)"
  have flt: "filter is_UpdateStatusById (?D @ evs) = filter is_UpdateStatusById evs" for evs
    by (simp add: filter_delivery)
  have sent: "issued (on_completed env job) w = ?D @ [?upd]
       \<and> filter is_Reply (issued (on_completed env job) w)
           = map (\<lambda>a. Reply original (Media (loaded a))) (download (returnvalue job))
       \<and> filter is_RemoveFile (issued (on_completed env job) w)
           = map (\<lambda>a. RemoveFile (path a)) (download (returnvalue job))
       \<and> filter is_UpdateStatusById (issued (on_completed env job) w) = [?upd]
       \<and> unhandled (snd (on_completed env job w))
           = unhandled w @ rejected env (issued (on_completed env job) w)"
    if resolved: "getMessageById env (serialized (id' (message (data job)))) = Inr (Some original)"
      and post: "post = []"
      and updated: "failure (outcome env ?upd) = None"
  proof -
    have all: "download (returnvalue job) = pre" using arts post by simp
    note run = on_completed_run[OF resolved loaded[folded all] replied[folded all]
        removed[folded all] tracked updated, of w]
    have i: "issued (on_completed env job) w = ?D @ [?upd]"
      by (simp add: issued_def run all)
    show ?thesis
      unfolding i
      by (simp add: filter_delivery all run)
        (simp add: is_Reply_def is_RemoveFile_def is_UpdateStatusById_def)
  qed
  have unsent: "issued (on_completed env job) w = ?D @ [?upd, ?err e]"
    if resolved: "getMessageById env (serialized (id' (message (data job)))) = Inr (Some original)"
      and post: "post = []"
      and failed: "failure (outcome env ?upd) = Some e"
  proof -
    have all: "download (returnvalue job) = pre" using arts post by simp
    have tr: "sync_throw (outcome env (?err e)) = None" using tracked by simp
    have body: "emits (andThen (deliver env job pre) (\<lambda>_. await_call env ?upd)) w (Inl e) (?D @ [?upd])"
      by (rule emits_andThen[OF deliver_emits[OF resolved loaded replied removed tracked]
            emits_await_call_fails[OF failed]])
    have handler: "\<And>w'. emits (andThen (console_log ''Error in onQueueMessage:'' (Err e)) (\<lambda>_.
        fire env (?err e))) w' (Inr ()) [?err e]"
      by (rule emits_log_then_fire[OF tr])
    have "emits (on_completed env job) w (Inr ()) ((?D @ [?upd]) @ [?err e])"
      unfolding on_completed_def all
      by (rule emits_try_catch_Inl[where h = "\<lambda>e. andThen (console_log ''Error in onQueueMessage:'' (Err e)) (\<lambda>_.
        fire env (TrackEvent ''error_onQueueMessage'' [] (ErrorProp e job)))", OF body handler])
    then show ?thesis by (simp add: issued_emits)
  qed
  have stops: "issued (on_completed env job) w = ?D @ evs' @ [?err e]"
    if resolved: "getMessageById env (serialized (id' (message (data job)))) = Inr (Some original)"
      and post: "post = a # rest"
      and stop: "\<And>w. emits (deliver env job (a # rest)) w (Inl e) evs'" for evs' e
    using issued_emits[OF on_completed_stops[OF arts[unfolded post]
          deliver_emits[OF resolved loaded replied removed tracked] stop tracked, of w]]
    by simp
  have nil: "\<And>w. emits (deliver env job []) w (Inr ()) []" by (simp add: emits_ret)
  have first: "issued (on_completed env job) w = [?err e]"
    if "pre = []" and post: "post = a # rest"
      and stop: "\<And>w. emits (deliver env job (a # rest)) w (Inl e) []" for e
    using issued_emits[OF on_completed_stops[OF arts[unfolded post \<open>pre = []\<close>]
          nil stop tracked, of w]]
    by simp
  show ?thesis
  proof (intro conjI impI; (elim conjE)?)
    assume "getMessageById env (serialized (id' (message (data job)))) = Inr (Some original)"
      "post = []" "failure (outcome env ?upd) = None"
    note s = sent[OF this]
    show "issued (on_completed env job) w = ?D @ [?upd]" using s by blast
    show "filter is_Reply (issued (on_completed env job) w)
           = map (\<lambda>a. Reply original (Media (loaded a))) (download (returnvalue job))" using s by blast
    show "filter is_RemoveFile (issued (on_completed env job) w)
           = map (\<lambda>a. RemoveFile (path a)) (download (returnvalue job))" using s by blast
    show "filter is_UpdateStatusById (issued (on_completed env job) w) = [?upd]" using s by blast
    show "unhandled (snd (on_completed env job w))
           = unhandled w @ rejected env (issued (on_completed env job) w)" using s by blast
  next
    assume "getMessageById env (serialized (id' (message (data job)))) = Inr (Some original)"
      "post = []" "failure (outcome env ?upd) = Some e"
    then show "issued (on_completed env job) w = ?D @ [?upd, ?err e]" by (rule unsent)
  next
    assume r: "getMessageById env (serialized (id' (message (data job)))) = Inr (Some original)"
      and p: "post = a # rest" and f: "fromFilePath env (path a) = Inl e"
    show i: "issued (on_completed env job) w = ?D @ [?err e]"
      using stops[OF r p deliver_fails_at_load[OF f]] by simp
    show "filter is_UpdateStatusById (issued (on_completed env job) w) = []"
      unfolding i flt by (simp add: is_UpdateStatusById_def)
  next
    assume r: "getMessageById env (serialized (id' (message (data job)))) = Inr (Some original)"
      and p: "post = a # rest" and f: "fromFilePath env (path a) = Inr m"
      and t: "sync_throw (outcome env (Reply original (Media m))) = Some e"
    show i: "issued (on_completed env job) w = ?D @ [Reply original (Media m), ?err e]"
      using stops[OF r p deliver_fails_at_reply[OF f r t]] by simp
    show "filter is_UpdateStatusById (issued (on_completed env job) w) = []"
      unfolding i flt by (simp add: is_UpdateStatusById_def)
  next
    assume r: "getMessageById env (serialized (id' (message (data job)))) = Inr (Some original)"
      and p: "post = a # rest" and f: "fromFilePath env (path a) = Inr m"
      and t: "sync_throw (outcome env (Reply original (Media m))) = None"
      and x: "failure (outcome env (RemoveFile (path a))) = Some e"
    show i: "issued (on_completed env job) w
        = ?D @ [Reply original (Media m), RemoveFile (path a), ?err e]"
      using stops[OF r p deliver_fails_at_removal[OF f r t x]] by simp
    show "filter is_UpdateStatusById (issued (on_completed env job) w) = []"
      unfolding i flt by (simp add: is_UpdateStatusById_def)
  next
    assume p: "pre = []" "post = a # rest" and f: "fromFilePath env (path a) = Inr m"
      and r: "getMessageById env (serialized (id' (message (data job)))) = Inr None"
    show "issued (on_completed env job) w = [?err TypeError]"
      by (rule first[OF p deliver_fails_at_missing[OF f r]])
  next
    assume p: "pre = []" "post = a # rest" and f: "fromFilePath env (path a) = Inr m"
      and r: "getMessageById env (serialized (id' (message (data job)))) = Inl e"
    show "issued (on_completed env job) w = [?err e]"
      by (rule first[OF p deliver_fails_at_resolution[OF f r]])
  qed
qed

theorem completed_job_delivers_each_artifact_then_marks_sent_witness:
  "length (download (returnvalue completed_job)) = 2
   \<and> issued (on_completed calm_env completed_job) fresh_world
       = [Reply link_message (Media picture), RemoveFile ''downloads/1.mp4'',
          TrackEvent ''download_response'' ''201002003000@c.us'' (MessageProp link_message),
          Reply link_message (Media picture), RemoveFile ''downloads/2.jpg'',
          TrackEvent ''download_response'' ''201002003000@c.us'' (MessageProp link_message),
          UpdateStatusById ''download-1'' SENT]
   \<and> length (filter is_Reply (issued (on_completed calm_env completed_job) fresh_world)) = 2
   \<and> length (filter is_RemoveFile (issued (on_completed calm_env completed_job) fresh_world)) = 2
   \<and> length (filter is_UpdateStatusById (issued (on_completed calm_env completed_job) fresh_world)) = 1
   \<and> unhandled (snd (on_completed calm_env completed_job fresh_world)) = []
   \<and> fromFilePath missing_file_env ''downloads/2.jpg'' = Inl (Failure ''ENOENT: no such file or directory'')
   \<and> issued (on_completed missing_file_env completed_job) fresh_world
       = [Reply link_message (Media picture), RemoveFile ''downloads/1.mp4'',
          TrackEvent ''download_response'' ''201002003000@c.us'' (MessageProp link_message),
          TrackEvent ''error_onQueueMessage'' []
            (ErrorProp (Failure ''ENOENT: no such file or directory'') completed_job)]
   \<and> getMessageById forgetful_env (serialized (id' (message (data completed_job)))) = Inr None
   \<and> issued (on_completed forgetful_env completed_job) fresh_world
       = [TrackEvent ''error_onQueueMessage'' [] (ErrorProp TypeError completed_job)]"
proof -
  have j: "download (returnvalue completed_job) = [\<lparr>path = ''downloads/1.mp4''\<rparr>, \<lparr>path = ''downloads/2.jpg''\<rparr>]"
      "downloadId (returnvalue completed_job) = ''download-1''"
      "message (data completed_job) = link_message"
      "from_jid link_message = ''201002003000@c.us''"
    by (simp_all add: completed_job_def link_message_def)
  have calm: "getMessageById calm_env (serialized (id' (message (data completed_job)))) = Inr (Some link_message)"
      "failure (outcome calm_env (UpdateStatusById (downloadId (returnvalue completed_job)) SENT)) = None"
      "\<forall>ev. rejections (outcome calm_env ev) = []"
    by (simp_all add: calm_env_def)
  have whole: "download (returnvalue completed_job)
        = [\<lparr>path = ''downloads/1.mp4''\<rparr>, \<lparr>path = ''downloads/2.jpg''\<rparr>] @ []"
    and calm_loaded: "\<forall>a\<in>set [\<lparr>path = ''downloads/1.mp4''\<rparr>, \<lparr>path = ''downloads/2.jpg''\<rparr>].
        fromFilePath calm_env (path a) = Inr ((\<lambda>_. picture) a)"
    and calm_replied: "\<forall>a\<in>set [\<lparr>path = ''downloads/1.mp4''\<rparr>, \<lparr>path = ''downloads/2.jpg''\<rparr>].
        sync_throw (outcome calm_env (Reply link_message (Media ((\<lambda>_. picture) a)))) = None"
    and calm_removed: "\<forall>a\<in>set [\<lparr>path = ''downloads/1.mp4''\<rparr>, \<lparr>path = ''downloads/2.jpg''\<rparr>].
        failure (outcome calm_env (RemoveFile (path a))) = None"
    and calm_tracked: "\<forall>n u p. sync_throw (outcome calm_env (TrackEvent n u p)) = None"
    by (simp_all add: calm_env_def j)
  have missing: "getMessageById missing_file_env (serialized (id' (message (data completed_job)))) = Inr (Some link_message)"
      "fromFilePath missing_file_env (path \<lparr>path = ''downloads/2.jpg''\<rparr>)
         = Inl (Failure ''ENOENT: no such file or directory'')"
    by (simp_all add: missing_file_env_def calm_env_def)
  have split: "download (returnvalue completed_job)
        = [\<lparr>path = ''downloads/1.mp4''\<rparr>] @ [\<lparr>path = ''downloads/2.jpg''\<rparr>]"
    and missing_loaded: "\<forall>a\<in>set [\<lparr>path = ''downloads/1.mp4''\<rparr>].
        fromFilePath missing_file_env (path a) = Inr ((\<lambda>_. picture) a)"
    and missing_replied: "\<forall>a\<in>set [\<lparr>path = ''downloads/1.mp4''\<rparr>].
        sync_throw (outcome missing_file_env (Reply link_message (Media ((\<lambda>_. picture) a)))) = None"
    and missing_removed: "\<forall>a\<in>set [\<lparr>path = ''downloads/1.mp4''\<rparr>].
        failure (outcome missing_file_env (RemoveFile (path a))) = None"
    and missing_tracked: "\<forall>n u p. sync_throw (outcome missing_file_env (TrackEvent n u p)) = None"
    by (simp_all add: missing_file_env_def calm_env_def j)
  have forgetful: "getMessageById forgetful_env (serialized (id' (message (data completed_job)))) = Inr None"
      "fromFilePath forgetful_env (path \<lparr>path = ''downloads/1.mp4''\<rparr>) = Inr picture"
    by (simp_all add: forgetful_env_def calm_env_def)
  have none: "download (returnvalue completed_job)
        = [] @ [\<lparr>path = ''downloads/1.mp4''\<rparr>, \<lparr>path = ''downloads/2.jpg''\<rparr>]"
    and forgetful_loaded: "\<forall>a\<in>set []. fromFilePath forgetful_env (path a) = Inr ((\<lambda>_. picture) a)"
    and forgetful_replied: "\<forall>a\<in>set [].
        sync_throw (outcome forgetful_env (Reply link_message (Media ((\<lambda>_. picture) a)))) = None"
    and forgetful_removed: "\<forall>a\<in>set []. failure (outcome forgetful_env (RemoveFile (path a))) = None"
    and forgetful_tracked: "\<forall>n u p. sync_throw (outcome forgetful_env (TrackEvent n u p)) = None"
    by (simp_all add: forgetful_env_def calm_env_def j)
  note sent = completed_job_delivers_each_artifact_then_marks_sent
      [OF whole calm_loaded calm_replied calm_removed calm_tracked,
       where w = fresh_world]
  note stopped = completed_job_delivers_each_artifact_then_marks_sent
      [OF split missing_loaded missing_replied missing_removed missing_tracked,
       where w = fresh_world and a = "\<lparr>path = ''downloads/2.jpg''\<rparr>"
         and rest = "[]" and e = "Failure ''ENOENT: no such file or directory''"]
  note unresolved = completed_job_delivers_each_artifact_then_marks_sent
      [OF none forgetful_loaded forgetful_replied forgetful_removed forgetful_tracked,
       where w = fresh_world and a = "\<lparr>path = ''downloads/1.mp4''\<rparr>"
         and rest = "[\<lparr>path = ''downloads/2.jpg''\<rparr>]" and m = picture]
  have a: "issued (on_completed calm_env completed_job) fresh_world
       = concat (map (delivery link_message completed_job (\<lambda>_. picture))
            [\<lparr>path = ''downloads/1.mp4''\<rparr>, \<lparr>path = ''downloads/2.jpg''\<rparr>])
         @ [UpdateStatusById (downloadId (returnvalue completed_job)) SENT]"
    and b: "unhandled (snd (on_completed calm_env completed_job fresh_world))
       = unhandled fresh_world @ rejected calm_env (issued (on_completed calm_env completed_job) fresh_world)"
    using sent calm by blast+
  have c: "issued (on_completed missing_file_env completed_job) fresh_world
       = concat (map (delivery link_message completed_job (\<lambda>_. picture)) [\<lparr>path = ''downloads/1.mp4''\<rparr>])
         @ [TrackEvent ''error_onQueueMessage'' []
             (ErrorProp (Failure ''ENOENT: no such file or directory'') completed_job)]"
    using stopped missing by blast
  have d: "issued (on_completed forgetful_env completed_job) fresh_world
       = [TrackEvent ''error_onQueueMessage'' [] (ErrorProp TypeError completed_job)]"
    using unresolved forgetful by blast
  have quiet: "rejected calm_env evs = []" for evs
    using calm(3) by (simp add: rejected_def)
  show ?thesis
    unfolding a b c d quiet
    using missing(2) forgetful(1)
    by (simp add: j delivery_def is_Reply_def is_RemoveFile_def is_UpdateStatusById_def fresh_world_def)
qed

section \<open>The unread reconciliation pass\<close>

text \<open>
  C1, as the claim states it, fails: the entry of a conversation is the beginning of the
  reversed history, so it lists the most recent messages newest first, not in
  chronological order; and it holds fewer than \<open>N\<close> messages when the history is shorter
  than the reported count. Here the history has the timestamps 1 to 4.
\<close>

theorem unread_entry_is_not_chronological:
  "fetchMessages inbox_env (chat_with ''b@c.us'' 3) = Inr four_messages
   \<and> map timestamp four_messages = [1, 2, 3, 4]
   \<and> unread_entry inbox_env fresh_world ''b@c.us''
       = Some [text_message 4, text_message 3, text_message 2]
   \<and> unread_entry inbox_env fresh_world ''b@c.us''
       \<noteq> Some [text_message 2, text_message 3, text_message 4]
   \<and> unread_entry inbox_env fresh_world ''c@c.us''
       = Some [text_message 4, text_message 3, text_message 2, text_message 1]"
proof -
  have chats: "getChats inbox_env = Inr inbox"
    and fetched: "\<forall>c\<in>set inbox. 0 < unreadCount c \<longrightarrow> fetchMessages inbox_env c = Inr ((\<lambda>_. four_messages) c)"
    and ids: "distinct (map chat_key inbox)"
    by (simp_all add: inbox_env_def calm_env_def inbox_def chat_with_def chat_key_def)
  from getUnreadChats_result[OF chats fetched, of fresh_world] ids
  obtain idx where idx: "fst (getUnreadChats inbox_env fresh_world) = Inr (Some idx)"
    "\<forall>c\<in>set (unread inbox). idx (chat_key c) = Some (slice0 (unreadCount c) (rev four_messages))"
    by force
  have u: "unread inbox = [chat_with ''b@c.us'' 3, chat_with ''c@c.us'' 5]"
    by (simp add: unread_def inbox_def chat_with_def)
  have b: "idx ''b@c.us'' = Some [text_message 4, text_message 3, text_message 2]"
    and c: "idx ''c@c.us'' = Some [text_message 4, text_message 3, text_message 2, text_message 1]"
    using idx(2) unfolding u
    by (simp_all add: chat_key_def chat_with_def slice0_def four_messages_def)
  have d: "[text_message 4, text_message 3, text_message 2]
      \<noteq> [text_message 2, text_message 3, text_message 4]"
    by (simp add: text_message_def)
  have f: "fetchMessages inbox_env (chat_with ''b@c.us'' 3) = Inr four_messages"
    "map timestamp four_messages = [1, 2, 3, 4]"
    by (simp_all add: inbox_env_def four_messages_def text_message_def)
  show ?thesis
    using f d by (simp add: unread_entry_def idx(1) b c)
qed

text \<open>
  C1, amended. For a conversation with a reported unread count \<open>N > 0\<close>, a pass that
  succeeds stores as its entry the first \<open>N\<close> messages of the reversed history: these are the
  last \<open>N\<close> messages of the history in reverse order, \<open>N\<close> of them when the history has that
  many and the whole history otherwise; when the history is in chronological order the
  entry is in reverse chronological order. The conversations have distinct ids.
\<close>

theorem unread_entry_is_latest_first:
  assumes chats: "getChats env = Inr chats"
    and fetched: "\<forall>c\<in>set chats. 0 < unreadCount c \<longrightarrow> fetchMessages env c = Inr (history c)"
    and ids: "distinct (map chat_key chats)"
    and c: "c \<in> set chats"
    and n: "0 < unreadCount c"
  shows "unread_entry env w (chat_key c) = Some (take (nat (unreadCount c)) (rev (history c)))
     \<and> take (nat (unreadCount c)) (rev (history c))
         = rev (drop (length (history c) - nat (unreadCount c)) (history c))
     \<and> length (take (nat (unreadCount c)) (rev (history c)))
         = min (nat (unreadCount c)) (length (history c))
     \<and> (sorted (map timestamp (history c))
          \<longrightarrow> sorted (rev (map timestamp (take (nat (unreadCount c)) (rev (history c))))))"
proof -
  from getUnreadChats_result[OF chats fetched, of w] ids
  obtain idx where idx: "fst (getUnreadChats env w) = Inr (Some idx)"
    "\<forall>c\<in>set (unread chats). idx (chat_key c) = Some (slice0 (unreadCount c) (rev (history c)))"
    by force
  have "c \<in> set (unread chats)" using c n by (simp add: unread_def)
  then have e: "unread_entry env w (chat_key c) = Some (take (nat (unreadCount c)) (rev (history c)))"
    using idx n by (simp add: unread_entry_def slice0_pos)
  have s: "sorted (map timestamp (history c))
          \<longrightarrow> sorted (rev (map timestamp (take (nat (unreadCount c)) (rev (history c)))))"
    by (simp add: take_rev rev_map[symmetric] drop_map[symmetric] sorted_wrt_drop del: drop_map)
  show ?thesis using e s by (simp add: take_rev)
qed

theorem unread_entry_is_latest_first_witness:
  "chat_with ''b@c.us'' 3 \<in> set inbox
   \<and> unread_entry inbox_env fresh_world ''b@c.us''
       = Some [text_message 4, text_message 3, text_message 2]
   \<and> sorted (map timestamp four_messages)
   \<and> sorted (rev (map timestamp [text_message 4, text_message 3, text_message 2]))"
proof -
  have chats: "getChats inbox_env = Inr inbox"
    and fetched: "\<forall>c\<in>set inbox. 0 < unreadCount c \<longrightarrow> fetchMessages inbox_env c = Inr ((\<lambda>_. four_messages) c)"
    and ids: "distinct (map chat_key inbox)"
    and c: "chat_with ''b@c.us'' 3 \<in> set inbox"
    and n: "0 < unreadCount (chat_with ''b@c.us'' 3)"
    by (simp_all add: inbox_env_def calm_env_def inbox_def chat_with_def chat_key_def)
  have s: "sorted (map timestamp four_messages)"
    by (simp add: four_messages_def text_message_def)
  from unread_entry_is_latest_first[OF chats fetched ids c n, of fresh_world] s c
  show ?thesis
    by (simp add: chat_key_def chat_with_def four_messages_def)
qed

text \<open>
  C6. A pass that succeeds returns an index whose keys are exactly the ids of the chats
  with a positive unread count, one entry for each such chat when the ids are distinct.
  Afterwards the counter holds the sum of the positive unread counts, which is the sum of
  all unread counts when none is negative. The counter is assigned only when that sum
  differs from its previous value; when they are equal the pass changes nothing at all.
\<close>

theorem reconciliation_index_and_counter:
  assumes chats: "getChats env = Inr chats"
    and fetched: "\<forall>c\<in>set chats. 0 < unreadCount c \<longrightarrow> fetchMessages env c = Inr (history c)"
  shows "\<exists>idx. fst (getUnreadChats env w) = Inr (Some idx)
      \<and> dom idx = chat_key ` set (unread chats)
      \<and> (distinct (map chat_key chats) \<longrightarrow> card (dom idx) = length (unread chats))
      \<and> unreadChats (snd (getUnreadChats env w)) = total_unread chats
      \<and> unreadChats_writes (snd (getUnreadChats env w))
          = unreadChats_writes w @ (if total_unread chats \<noteq> unreadChats w then [total_unread chats] else [])
      \<and> (total_unread chats = unreadChats w \<longrightarrow> snd (getUnreadChats env w) = w)
      \<and> ((\<forall>c\<in>set chats. 0 \<le> unreadCount c)
           \<longrightarrow> total_unread chats = sum_list (map unreadCount chats))"
proof -
  from getUnreadChats_result[OF chats fetched, of w]
  obtain idx where run: "getUnreadChats env w
        = (Inr (Some idx),
           if total_unread chats \<noteq> unreadChats w
           then w\<lparr>unreadChats := total_unread chats,
                  unreadChats_writes := unreadChats_writes w @ [total_unread chats]\<rparr>
           else w)"
    and d: "dom idx = chat_key ` set (unread chats)"
    by blast
  have card: "distinct (map chat_key chats) \<longrightarrow> card (dom idx) = length (unread chats)"
  proof
    assume "distinct (map chat_key chats)"
    then have "distinct (map chat_key (unread chats))"
      by (simp add: unread_def distinct_map_filter)
    from distinct_card[OF this] show "card (dom idx) = length (unread chats)"
      by (simp add: d)
  qed
  show ?thesis
    using d card total_unread_all[of chats] by (intro exI[of _ idx]) (simp add: run)
qed

theorem reconciliation_index_and_counter_witness:
  "map unreadCount inbox = [0, 3, 5]
   \<and> (\<exists>idx. fst (getUnreadChats inbox_env fresh_world) = Inr (Some idx)
          \<and> dom idx = {''b@c.us'', ''c@c.us''}
          \<and> card (dom idx) = 2)
   \<and> unreadChats (snd (getUnreadChats inbox_env fresh_world)) = 8
   \<and> unreadChats_writes (snd (getUnreadChats inbox_env fresh_world)) = [8]
   \<and> snd (getUnreadChats inbox_env (fresh_world\<lparr>unreadChats := 8\<rparr>)) = fresh_world\<lparr>unreadChats := 8\<rparr>"
proof -
  have chats: "getChats inbox_env = Inr inbox"
    and fetched: "\<forall>c\<in>set inbox. 0 < unreadCount c \<longrightarrow> fetchMessages inbox_env c = Inr ((\<lambda>_. four_messages) c)"
    by (simp_all add: inbox_env_def calm_env_def)
  have t: "total_unread inbox = 8" "unread inbox = [chat_with ''b@c.us'' 3, chat_with ''c@c.us'' 5]"
      "distinct (map chat_key inbox)" "map unreadCount inbox = [0, 3, 5]"
    by (simp_all add: total_unread_def unread_def inbox_def chat_with_def chat_key_def)
  have k: "chat_key ` set (unread inbox) = {''b@c.us'', ''c@c.us''}"
    by (simp add: t(2)) (simp add: chat_key_def chat_with_def)
  have z: "unreadChats fresh_world = 0" "unreadChats_writes fresh_world = []"
    by (simp_all add: fresh_world_def)
  from reconciliation_index_and_counter[OF chats fetched, of fresh_world]
  obtain idx where run: "fst (getUnreadChats inbox_env fresh_world) = Inr (Some idx)"
    and keys: "dom idx = chat_key ` set (unread inbox)"
    and entries: "distinct (map chat_key inbox) \<longrightarrow> card (dom idx) = length (unread inbox)"
    and counter: "unreadChats (snd (getUnreadChats inbox_env fresh_world)) = total_unread inbox"
    and writes: "unreadChats_writes (snd (getUnreadChats inbox_env fresh_world))
          = unreadChats_writes fresh_world
            @ (if total_unread inbox \<noteq> unreadChats fresh_world then [total_unread inbox] else [])"
    by blast
  have "card (dom idx) = 2"
    using entries t(3) by (simp add: t(2))
  then have index: "\<exists>idx. fst (getUnreadChats inbox_env fresh_world) = Inr (Some idx)
          \<and> dom idx = {''b@c.us'', ''c@c.us''} \<and> card (dom idx) = 2"
    using run keys unfolding k by blast
  have first: "unreadChats (snd (getUnreadChats inbox_env fresh_world)) = 8"
      "unreadChats_writes (snd (getUnreadChats inbox_env fresh_world)) = [8]"
    using counter writes by (simp_all add: t(1) z)
  from reconciliation_index_and_counter[OF chats fetched, of "fresh_world\<lparr>unreadChats := 8\<rparr>"]
  have "total_unread inbox = unreadChats (fresh_world\<lparr>unreadChats := 8\<rparr>)
      \<longrightarrow> snd (getUnreadChats inbox_env (fresh_world\<lparr>unreadChats := 8\<rparr>))
          = fresh_world\<lparr>unreadChats := 8\<rparr>"
    by blast
  then have again: "snd (getUnreadChats inbox_env (fresh_world\<lparr>unreadChats := 8\<rparr>))
      = fresh_world\<lparr>unreadChats := 8\<rparr>"
    by (simp add: t(1))
  show ?thesis
    using t(4) index first again by blast
qed

section \<open>The lifecycle\<close>

text \<open>
  C7, as the claim states it, fails. The ready handler is registered with \<^verbatim>\<open>once\<close> and the
  QR handler with \<^verbatim>\<open>on\<close>: a prompt shown after the first ready signal, here after a
  disconnection, is still there after the next ready signal, which issues no call. And the
  handler tests the id of the prompt for truthiness: a prompt with id \<open>0\<close> is not retracted.
\<close>

theorem prompt_shown_after_ready_is_never_retracted:
  "QrCodeMessageId reprompted_world = Some 9
   \<and> emit calm_env ClientReady reprompted_world = (Inr (), reprompted_world)
   \<and> issued (emit calm_env ClientReady) reprompted_world = []
   \<and> QrCodeMessageId zero_prompt_world = Some 0
   \<and> filter is_TelegramDeleteMessage (issued (emit calm_env ClientReady) zero_prompt_world) = []
   \<and> QrCodeMessageId (snd (emit calm_env ClientReady zero_prompt_world)) = Some 0"
proof -
  let ?w0 = "snd (setupWhatsAppEventHandlers fresh_world)"
  have no_throw: "\<forall>ev. sync_throw (outcome calm_env ev) = None"
    by (simp add: calm_env_def)
  have armed: "ready_listeners ?w0 = [(ClientReady, True)]"
    by (simp add: setup_arms_ready) (simp add: ready_listeners_def fresh_world_def)
  have q0: "QrCodeMessageId ?w0 = None"
    by (simp add: setupWhatsAppEventHandlers_def register_def andThen_modify modify_apply
        fresh_world_def)
  from first_ready_result[OF armed no_throw]
  have q1: "QrCodeMessageId ready_world = None"
    unfolding ready_world_def using q0 by auto
  have q2: "QrCodeMessageId (snd (on_disconnected calm_env ''LOGOUT'' ready_world)) = None"
    using keeps_QrCodeMessageId_on_disconnected[of calm_env "''LOGOUT''"] q1 by (simp add: keeps_def)
  have shown: "QrCodeMessageId reprompted_world = Some 9"
    unfolding reprompted_world_def
    by (subst on_qr_sends[where sent = "Some 9"]) (simp_all add: q2, simp_all add: calm_env_def)
  have "keeps ready_listeners (andThen (on_disconnected calm_env ''LOGOUT'') (\<lambda>_. on_qr calm_env ''2@h8LqXc''))"
    by (intro keeps_andThen keeps_ready_listeners_on_disconnected keeps_ready_listeners_on_qr)
  then have "ready_listeners reprompted_world = ready_listeners ready_world"
    unfolding reprompted_world_def keeps_def
    using keeps_ready_listeners_on_disconnected[of calm_env "''LOGOUT''"]
      keeps_ready_listeners_on_qr[of calm_env "''2@h8LqXc''"]
    by (simp add: keeps_def)
  then have "ready_listeners reprompted_world = []"
    unfolding ready_world_def by (simp add: ready_listeners_after_emit[OF armed])
  then have still: "emit calm_env ClientReady reprompted_world = (Inr (), reprompted_world)"
    by (rule emit_ready_unarmed)
  have armed0: "ready_listeners zero_prompt_world = [(ClientReady, True)]"
    unfolding zero_prompt_world_def
    by (simp add: setup_arms_ready) (simp add: ready_listeners_def fresh_world_def)
  have z: "QrCodeMessageId zero_prompt_world = Some 0"
    by (simp add: zero_prompt_world_def setupWhatsAppEventHandlers_def register_def andThen_modify
        modify_apply fresh_world_def)
  from first_ready_result[OF armed0 no_throw]
  obtain w' where e: "emit calm_env ClientReady zero_prompt_world = (Inr (), w')"
    and c: "calls w' = calls zero_prompt_world @ ready_calls calm_env (QrCodeMessageId zero_prompt_world)"
    and q: "QrCodeMessageId w'
         = (case QrCodeMessageId zero_prompt_world of None \<Rightarrow> None
            | Some qr \<Rightarrow> if qr = 0 then Some 0 else None)"
    by blast
  show ?thesis
    using shown still z
    by (simp add: issued_def e c q ready_calls_def is_TelegramDeleteMessage_def)
qed

text \<open>
  C7, amended. \<^verbatim>\<open>setupWhatsAppEventHandlers\<close> registers the ready handler with \<^verbatim>\<open>once\<close>.
  When it is the only listener for \<^verbatim>\<open>ready\<close>, a second \<^verbatim>\<open>ready\<close> signal changes nothing: it
  registers no handler and sends no notification. When no call throws, the first signal
  registers the message, queue, broadcast, timer and call handlers once each, sends the
  ready notifications once, and retracts the QR prompt exactly once if there is one with
  an id other than \<open>0\<close>, leaving no prompt behind; a prompt with id \<open>0\<close> is kept and not
  retracted. The handlers for authentication, its failure, disconnection and QR codes
  register no ready listener, so after the first signal and any handler \<open>m\<close> that registers
  none, a further \<^verbatim>\<open>ready\<close> signal changes nothing: a prompt that the QR handler has shown
  in between (it stores the id that the channel returns when there is no prompt) is not
  retracted.
\<close>

theorem second_ready_does_nothing:
  assumes armed: "ready_listeners w = [(ClientReady, True)]"
  shows "emit env ClientReady (snd (emit env ClientReady w)) = (Inr (), snd (emit env ClientReady w))
     \<and> ((\<forall>ev. sync_throw (outcome env ev) = None) \<longrightarrow>
          listeners (snd (emit env ClientReady w))
            = remove1 (ClientReady, True) (listeners w) @ ready_registrations
        \<and> issued (emit env ClientReady) w = ready_calls env (QrCodeMessageId w)
        \<and> filter is_TelegramDeleteMessage (issued (emit env ClientReady) w)
            = (case QrCodeMessageId w of
                 None \<Rightarrow> []
               | Some qr \<Rightarrow> if qr = 0 then [] else [TelegramDeleteMessage qr])
        \<and> QrCodeMessageId (snd (emit env ClientReady w))
            = (case QrCodeMessageId w of
                 None \<Rightarrow> None
               | Some qr \<Rightarrow> if qr = 0 then Some 0 else None))
     \<and> keeps ready_listeners (on_authenticated env)
     \<and> keeps ready_listeners (on_auth_failure env)
     \<and> keeps ready_listeners (on_disconnected env reason)
     \<and> keeps ready_listeners (on_qr env qr)
     \<and> (keeps ready_listeners m \<longrightarrow>
          emit env ClientReady (snd (m (snd (emit env ClientReady w))))
            = (Inr (), snd (m (snd (emit env ClientReady w)))))
     \<and> (failure (outcome env (SaveFile (qrCodePath env) qr)) = None
          \<and> (QrCodeMessageId v = None \<or> QrCodeMessageId v = Some 0)
          \<and> sendQRcode env (qrCodePath env) = Inr sent
        \<longrightarrow> QrCodeMessageId (snd (on_qr env qr v)) = sent)"
proof (intro conjI impI; (elim conjE)?)
  show "emit env ClientReady (snd (emit env ClientReady w)) = (Inr (), snd (emit env ClientReady w))"
    by (rule emit_ready_unarmed[OF ready_listeners_after_emit[OF armed]])
  show "keeps ready_listeners (on_authenticated env)" by (rule keeps_ready_listeners_on_authenticated)
  show "keeps ready_listeners (on_auth_failure env)" by (rule keeps_ready_listeners_on_auth_failure)
  show "keeps ready_listeners (on_disconnected env reason)" by (rule keeps_ready_listeners_on_disconnected)
  show "keeps ready_listeners (on_qr env qr)" by (rule keeps_ready_listeners_on_qr)
next
  assume "keeps ready_listeners m"
  then show "emit env ClientReady (snd (m (snd (emit env ClientReady w))))
            = (Inr (), snd (m (snd (emit env ClientReady w))))"
    by (rule later_ready_changes_nothing[OF armed])
next
  assume "failure (outcome env (SaveFile (qrCodePath env) qr)) = None"
    "QrCodeMessageId v = None \<or> QrCodeMessageId v = Some 0"
    "sendQRcode env (qrCodePath env) = Inr sent"
  then show "QrCodeMessageId (snd (on_qr env qr v)) = sent"
    by (simp add: on_qr_sends)
next
  assume no_throw: "\<forall>ev. sync_throw (outcome env ev) = None"
  from first_ready_result[OF armed no_throw]
  obtain w' where e: "emit env ClientReady w = (Inr (), w')"
    and l: "listeners w' = remove1 (ClientReady, True) (listeners w) @ ready_registrations"
    and c: "calls w' = calls w @ ready_calls env (QrCodeMessageId w)"
    and q: "QrCodeMessageId w'
         = (case QrCodeMessageId w of None \<Rightarrow> None | Some qr \<Rightarrow> if qr = 0 then Some 0 else None)"
    by blast
  show "listeners (snd (emit env ClientReady w))
            = remove1 (ClientReady, True) (listeners w) @ ready_registrations"
    by (simp add: e l)
  show i: "issued (emit env ClientReady) w = ready_calls env (QrCodeMessageId w)"
    by (simp add: issued_def e c)
  show "filter is_TelegramDeleteMessage (issued (emit env ClientReady) w)
            = (case QrCodeMessageId w of
                 None \<Rightarrow> []
               | Some qr \<Rightarrow> if qr = 0 then [] else [TelegramDeleteMessage qr])"
    unfolding i by (simp add: ready_calls_def is_TelegramDeleteMessage_def split: option.splits)
  show "QrCodeMessageId (snd (emit env ClientReady w))
            = (case QrCodeMessageId w of
                 None \<Rightarrow> None
               | Some qr \<Rightarrow> if qr = 0 then Some 0 else None)"
    by (simp add: e q)
qed

theorem second_ready_does_nothing_witness:
  "ready_listeners prompted_world = [(ClientReady, True)]
   \<and> QrCodeMessageId prompted_world = Some 7
   \<and> emit calm_env ClientReady (snd (emit calm_env ClientReady prompted_world))
       = (Inr (), snd (emit calm_env ClientReady prompted_world))
   \<and> filter is_TelegramDeleteMessage (issued (emit calm_env ClientReady) prompted_world)
       = [TelegramDeleteMessage 7]
   \<and> listeners (snd (emit calm_env ClientReady prompted_world))
       = [(ClientAuthenticated, False), (ClientAuthFailure, False), (ClientDisconnected, False),
          (ClientQr, False)] @ ready_registrations
   \<and> QrCodeMessageId (snd (emit calm_env ClientReady prompted_world)) = None
   \<and> keeps ready_listeners (on_qr calm_env ''2@h8LqXc'')
   \<and> QrCodeMessageId (snd (on_qr calm_env ''2@h8LqXc'' (snd (emit calm_env ClientReady prompted_world))))
       = Some 9
   \<and> emit calm_env ClientReady
        (snd (on_qr calm_env ''2@h8LqXc'' (snd (emit calm_env ClientReady prompted_world))))
       = (Inr (), snd (on_qr calm_env ''2@h8LqXc'' (snd (emit calm_env ClientReady prompted_world))))"
proof -
  have armed: "ready_listeners prompted_world = [(ClientReady, True)]"
    by (simp add: prompted_world_def setup_arms_ready) (simp add: ready_listeners_def fresh_world_def)
  have no_throw: "\<forall>ev. sync_throw (outcome calm_env ev) = None"
    by (simp add: calm_env_def)
  have w: "QrCodeMessageId prompted_world = Some 7"
      "listeners prompted_world = [(ClientAuthenticated, False), (ClientAuthFailure, False),
          (ClientDisconnected, False), (ClientReady, True), (ClientQr, False)]"
    by (simp_all add: prompted_world_def setupWhatsAppEventHandlers_def register_def andThen_modify
        modify_apply fresh_world_def)
  have saved: "failure (outcome calm_env (SaveFile (qrCodePath calm_env) ''2@h8LqXc'')) = None"
    and sent: "sendQRcode calm_env (qrCodePath calm_env) = Inr (Some 9)"
    by (simp_all add: calm_env_def)
  note ready = second_ready_does_nothing[OF armed, where env = calm_env and qr = "''2@h8LqXc''"
      and m = "on_qr calm_env ''2@h8LqXc''" and v = "snd (emit calm_env ClientReady prompted_world)"
      and sent = "Some 9"]
  have first: "listeners (snd (emit calm_env ClientReady prompted_world))
            = remove1 (ClientReady, True) (listeners prompted_world) @ ready_registrations"
    "filter is_TelegramDeleteMessage (issued (emit calm_env ClientReady) prompted_world)
            = (case QrCodeMessageId prompted_world of
                 None \<Rightarrow> []
               | Some qr \<Rightarrow> if qr = 0 then [] else [TelegramDeleteMessage qr])"
    "QrCodeMessageId (snd (emit calm_env ClientReady prompted_world))
            = (case QrCodeMessageId prompted_world of
                 None \<Rightarrow> None
               | Some qr \<Rightarrow> if qr = 0 then Some 0 else None)"
    using ready no_throw by blast+
  have second: "emit calm_env ClientReady (snd (emit calm_env ClientReady prompted_world))
       = (Inr (), snd (emit calm_env ClientReady prompted_world))"
    using ready by blast
  have kept: "keeps ready_listeners (on_qr calm_env ''2@h8LqXc'')"
    using ready by blast
  have later: "emit calm_env ClientReady
        (snd (on_qr calm_env ''2@h8LqXc'' (snd (emit calm_env ClientReady prompted_world))))
       = (Inr (), snd (on_qr calm_env ''2@h8LqXc'' (snd (emit calm_env ClientReady prompted_world))))"
    using ready kept by blast
  have none: "QrCodeMessageId (snd (emit calm_env ClientReady prompted_world)) = None"
    using first(3) by (simp add: w)
  have shown: "QrCodeMessageId (snd (on_qr calm_env ''2@h8LqXc'' (snd (emit calm_env ClientReady prompted_world))))
       = Some 9"
    using ready saved sent none by blast
  show ?thesis
    using armed second kept later shown none first(1,2)
    by (simp add: w)
qed

end
